theory Spec2Isabelle
  imports Complex_Main "HOL-Library.Word"
begin

section \<open>Floating-point values and tensors\<close>

text \<open>
  A floating-point value is the rational it denotes, an infinity, or NaN. Comparisons
  between finite values are those of the rationals; every comparison with NaN is false.
\<close>

datatype fp = Fin rat | PInf | NInf | NaN

fun fp_gt :: "fp \<Rightarrow> rat \<Rightarrow> bool" where
  "fp_gt (Fin a) c = (a > c)"
| "fp_gt PInf c = True"
| "fp_gt NInf c = False"
| "fp_gt NaN c = False"

fun fp_isnan :: "fp \<Rightarrow> bool" where
  "fp_isnan NaN = True"
| "fp_isnan v = False"

text \<open>
  A tensor: its shape and its elements in row-major order. Tensors are values here: the
  notebook never writes into a tensor in place (\<^verbatim>\<open>squeeze\<close>, indexing and
  comparison all return a tensor and leave their argument as it is).
\<close>

record 'a tensor =
  shape :: "nat list"
  elems :: "'a list"

text \<open>
  The Python exceptions the notebook's calls raise, and InsufficientClassDiversity, the
  spec's name for the failure of the class-weight computation on a single class.
\<close>

datatype error =
  IndexError | RuntimeError | ValueError | KeyError | AssertionError | ArgumentError
  | InsufficientClassDiversity

text \<open>\<^verbatim>\<open>t > c\<close>: elementwise comparison with a Python scalar.\<close>

definition gt :: "fp tensor \<Rightarrow> rat \<Rightarrow> bool tensor" where
  "gt t c = \<lparr>shape = shape t, elems = map (\<lambda>v. fp_gt v c) (elems t)\<rparr>"

text \<open>\<^verbatim>\<open>t.float()\<close> on a boolean tensor: True is 1.0, False is 0.0.\<close>

definition to_float :: "bool tensor \<Rightarrow> fp tensor" where
  "to_float t = \<lparr>shape = shape t, elems = map (\<lambda>b. if b then Fin 1 else Fin 0) (elems t)\<rparr>"

text \<open>\<^verbatim>\<open>t.squeeze()\<close>: every dimension of size 1 is dropped.\<close>

definition squeeze :: "'a tensor \<Rightarrow> 'a tensor" where
  "squeeze t = \<lparr>shape = filter (\<lambda>d. d \<noteq> 1) (shape t), elems = elems t\<rparr>"

text \<open>
  \<^verbatim>\<open>t[i]\<close> for a constant \<open>i \<ge> 0\<close>: the \<open>i\<close>-th slice along the first
  dimension. A 0-dimensional tensor cannot be indexed, and an index past the first
  dimension is out of range: both raise IndexError.
\<close>

definition getitem :: "'a tensor \<Rightarrow> nat \<Rightarrow> error + 'a tensor" where
  "getitem t i =
     (case shape t of
        [] \<Rightarrow> Inl IndexError
      | d # rest \<Rightarrow>
          if i < d
          then Inr \<lparr>shape = rest,
                    elems = take (prod_list rest) (drop (i * prod_list rest) (elems t))\<rparr>
          else Inl IndexError)"

text \<open>\<^verbatim>\<open>torch.isnan(t)\<close>, elementwise.\<close>

definition isnan :: "fp tensor \<Rightarrow> bool tensor" where
  "isnan t = \<lparr>shape = shape t, elems = map fp_isnan (elems t)\<rparr>"

text \<open>
  The truth value of a tensor (Python's \<^verbatim>\<open>bool(t)\<close>, which \<^verbatim>\<open>not t\<close> and
  \<^verbatim>\<open>any([...])\<close> call): defined for a tensor of exactly one element, a RuntimeError
  otherwise.
\<close>

definition tensor_bool :: "bool tensor \<Rightarrow> error + bool" where
  "tensor_bool t = (case elems t of [b] \<Rightarrow> Inr b | _ \<Rightarrow> Inl RuntimeError)"

section \<open>Samples and the label extractors\<close>

text \<open>
  A molecule record of the dataset loader: the attributes the notebook reads are the
  structure string \<^verbatim>\<open>smiles\<close> and the label tensor \<^verbatim>\<open>y\<close>. Records are objects:
  the heap is the list of all objects allocated so far, and a reference is an index into it.
\<close>

record data =
  smiles :: string
  y :: "fp tensor"

type_synonym ref = nat
type_synonym heap = "data list"

text \<open>
  \<^verbatim>\<open>copy(sample)\<close>: a shallow copy. A new object is allocated whose attributes are
  those of the original.
\<close>

definition copy :: "heap \<Rightarrow> ref \<Rightarrow> heap \<times> ref" where
  "copy h r = (h @ [h ! r], length h)"

text \<open>\<^verbatim>\<open>sample.y = t\<close>: the attribute of the object \<open>r\<close> refers to is rebound.\<close>

definition set_y :: "heap \<Rightarrow> ref \<Rightarrow> fp tensor \<Rightarrow> heap" where
  "set_y h r t = h[r := (h ! r)\<lparr>y := t\<rparr>]"

definition transform_lipo :: "heap \<Rightarrow> ref \<Rightarrow> heap \<times> (error + ref)" where
  "transform_lipo h sample =
     (let (h1, sample1) = copy h sample;
          h2 = set_y h1 sample1 (squeeze (to_float (gt (y (h1 ! sample1)) 3.5)))
      in (h2, Inr sample1))"

definition transform_hiv :: "heap \<Rightarrow> ref \<Rightarrow> heap \<times> (error + ref)" where
  "transform_hiv h sample =
     (let (h1, sample1) = copy h sample;
          h2 = set_y h1 sample1 (squeeze (y (h1 ! sample1)))
      in (h2, Inr sample1))"

definition transform_bppp :: "heap \<Rightarrow> ref \<Rightarrow> heap \<times> (error + ref)" where
  "transform_bppp h sample =
     (let (h1, sample1) = copy h sample;
          h2 = set_y h1 sample1 (squeeze (y (h1 ! sample1)))
      in (h2, Inr sample1))"

definition transform_tox21 :: "heap \<Rightarrow> ref \<Rightarrow> heap \<times> (error + ref)" where
  "transform_tox21 h sample =
     (let (h1, sample1) = copy h sample
      in case getitem (squeeze (y (h1 ! sample1))) 2 of
           Inl e \<Rightarrow> (h1, Inl e)
         | Inr t \<Rightarrow> (set_y h1 sample1 t, Inr sample1))"

definition transform_clintox :: "heap \<Rightarrow> ref \<Rightarrow> heap \<times> (error + ref)" where
  "transform_clintox h sample =
     (let (h1, sample1) = copy h sample
      in case getitem (squeeze (y (h1 ! sample1))) 0 of
           Inl e \<Rightarrow> (h1, Inl e)
         | Inr t \<Rightarrow> (set_y h1 sample1 t, Inr sample1))"

text \<open>\<^verbatim>\<open>not torch.isnan(sample.y)\<close>.\<close>

definition is_y_not_na :: "data \<Rightarrow> error + bool" where
  "is_y_not_na sample =
     (case tensor_bool (isnan (y sample)) of Inl e \<Rightarrow> Inl e | Inr b \<Rightarrow> Inr (\<not> b))"

datatype dataset = Lipo | Hiv | Bbbp | Clintox | Tox21

fun transforms :: "dataset \<Rightarrow> heap \<Rightarrow> ref \<Rightarrow> heap \<times> (error + ref)" where
  "transforms Lipo = transform_lipo"
| "transforms Hiv = transform_hiv"
| "transforms Bbbp = transform_bppp"
| "transforms Clintox = transform_clintox"
| "transforms Tox21 = transform_tox21"

text \<open>The label tensor each extractor assigns to the copy, as a function of the raw tensor.\<close>

fun label_of :: "dataset \<Rightarrow> fp tensor \<Rightarrow> error + fp tensor" where
  "label_of Lipo t = Inr (squeeze (to_float (gt t 3.5)))"
| "label_of Hiv t = Inr (squeeze t)"
| "label_of Bbbp t = Inr (squeeze t)"
| "label_of Clintox t = getitem (squeeze t) 0"
| "label_of Tox21 t = getitem (squeeze t) 2"

section \<open>Loading a dataset\<close>

text \<open>
  \<^verbatim>\<open>pd.Series(filter(is_y_not_na, map(transform, data)))\<close>. \<^verbatim>\<open>map\<close> and
  \<^verbatim>\<open>filter\<close> are lazy: each raw sample is transformed and then tested before the
  next one is touched, and the first exception ends the loop.
\<close>

fun filter_map_series ::
  "(heap \<Rightarrow> ref \<Rightarrow> heap \<times> (error + ref)) \<Rightarrow> heap \<Rightarrow> ref list \<Rightarrow> heap \<times> (error + ref list)" where
  "filter_map_series transform h [] = (h, Inr [])"
| "filter_map_series transform h (r # rs) =
     (case transform h r of
        (h1, Inl e) \<Rightarrow> (h1, Inl e)
      | (h1, Inr s) \<Rightarrow>
          (case is_y_not_na (h1 ! s) of
             Inl e \<Rightarrow> (h1, Inl e)
           | Inr keep \<Rightarrow>
               (case filter_map_series transform h1 rs of
                  (h2, Inl e) \<Rightarrow> (h2, Inl e)
                | (h2, Inr out) \<Rightarrow> (h2, Inr (if keep then s # out else out)))))"

text \<open>
  \<^verbatim>\<open>torch.isclose(t, torch.tensor(c))\<close> with the default tolerances
  \<open>rtol = 1e-05\<close>, \<open>atol = 1e-08\<close>, elementwise against the scalar \<open>c\<close>. NaN is
  close to nothing, an infinity only to itself. The tolerance test is written in exact
  arithmetic.
\<close>

fun fp_isclose :: "fp \<Rightarrow> fp \<Rightarrow> bool" where
  "fp_isclose (Fin a) (Fin b) = (\<bar>a - b\<bar> \<le> 1 / 10 ^ 8 + (1 / 10 ^ 5) * \<bar>b\<bar>)"
| "fp_isclose PInf PInf = True"
| "fp_isclose NInf NInf = True"
| "fp_isclose v w = False"

definition isclose :: "fp tensor \<Rightarrow> fp \<Rightarrow> bool tensor" where
  "isclose t c = \<lparr>shape = shape t, elems = map (\<lambda>v. fp_isclose v c) (elems t)\<rparr>"

text \<open>
  The three assertions on one sample. Every tensor of this model holds 32-bit floats, so
  the \<^verbatim>\<open>dtype\<close> assertion always passes. \<^verbatim>\<open>any([a, b])\<close> takes the truth value
  of \<open>a\<close> and, only when that is false, of \<open>b\<close>.
\<close>

definition check_sample :: "data \<Rightarrow> error + unit" where
  "check_sample sample =
     (if shape (y sample) \<noteq> [] then Inl AssertionError
      else case tensor_bool (isclose (y sample) (Fin 0)) of
             Inl e \<Rightarrow> Inl e
           | Inr True \<Rightarrow> Inr ()
           | Inr False \<Rightarrow>
               (case tensor_bool (isclose (y sample) (Fin 1)) of
                  Inl e \<Rightarrow> Inl e
                | Inr True \<Rightarrow> Inr ()
                | Inr False \<Rightarrow> Inl AssertionError))"

text \<open>
  \<^verbatim>\<open>for i in range(100): sample = data[i]; assert ...\<close>: the series has the labels
  \<open>0..len-1\<close>, so \<^verbatim>\<open>data[i]\<close> raises KeyError when fewer than \<open>i + 1\<close> samples are
  left.
\<close>

fun check_first :: "heap \<Rightarrow> ref list \<Rightarrow> nat list \<Rightarrow> error + unit" where
  "check_first h data [] = Inr ()"
| "check_first h data (i # rest) =
     (if i < length data
      then (case check_sample (h ! (data ! i)) of
              Inl e \<Rightarrow> Inl e
            | Inr u \<Rightarrow> check_first h data rest)
      else Inl KeyError)"

text \<open>One pass of the loading loop: the surviving samples of the dataset \<open>name\<close>.\<close>

definition load_dataset :: "dataset \<Rightarrow> heap \<Rightarrow> ref list \<Rightarrow> heap \<times> (error + ref list)" where
  "load_dataset name h raw =
     (case filter_map_series (transforms name) h raw of
        (h1, Inl e) \<Rightarrow> (h1, Inl e)
      | (h1, Inr data) \<Rightarrow>
          (case check_first h1 data [0..<100] of
             Inl e \<Rightarrow> (h1, Inl e)
           | Inr u \<Rightarrow> (h1, Inr data)))"

text \<open>
  A raw tox21 dataset for examples: 101 samples whose label tensor has the shape
  \<open>[1, 12]\<close>, as the loader delivers it, with the entries NaN, 0.0, \<open>v\<close> and nine
  times NaN; \<open>v\<close>, the entry at index 2, is 1.0 in the first 100 samples and 0.0 in the
  last.
\<close>

definition tox21_sample :: "string \<Rightarrow> fp \<Rightarrow> data" where
  "tox21_sample s v =
     \<lparr>smiles = s, y = \<lparr>shape = [1, 12], elems = [NaN, Fin 0, v] @ replicate 9 NaN\<rparr>\<rparr>"

definition example_heap :: heap where
  "example_heap = replicate 100 (tox21_sample ''C'' (Fin 1)) @ [tox21_sample ''CC'' (Fin 0)]"

section \<open>Fingerprints\<close>

text \<open>
  The cheminformatics library is not part of the notebook: it is a parameter.
  \<^verbatim>\<open>MolFromSmiles\<close> gives no molecule for a string it cannot parse, and
  \<^verbatim>\<open>GenMACCSKeys\<close> gives the key bits of a molecule.
\<close>

record 'mol rdkit =
  MolFromSmiles :: "string \<Rightarrow> 'mol option"
  GenMACCSKeys :: "'mol \<Rightarrow> bool list"

definition ToBitString :: "bool list \<Rightarrow> string" where
  "ToBitString bits = map (\<lambda>b. if b then CHR ''1'' else CHR ''0'') bits"

text \<open>
  \<^verbatim>\<open>np.frombuffer(bytes(s, 'utf-8'), 'u1') - ord('0')\<close>: the bytes of the bit string as
  unsigned 8-bit integers, minus 48 (with wrap-around). Key generation on no molecule
  raises.
\<close>

definition smiles2fingerprint :: "'mol rdkit \<Rightarrow> string \<Rightarrow> error + 8 word list" where
  "smiles2fingerprint rd s =
     (case MolFromSmiles rd s of
        None \<Rightarrow> Inl ArgumentError
      | Some mol \<Rightarrow>
          Inr (map (\<lambda>c. (of_nat (of_char c) :: 8 word) - 48) (ToBitString (GenMACCSKeys rd mol))))"

section \<open>The partitioner\<close>

text \<open>
  The random generator is a parameter as well: the state a generator has right after it is
  seeded, and the step that draws one double in \<open>[0, 1)\<close> and advances the state.
  A double is modelled by a rational number. The partitioner only compares the draws with
  its two literals, so only the order of these numbers matters: \<open>0.8\<close> and \<open>0.9\<close>
  stand for the doubles that the literals of the source denote.
\<close>

record 'g numpy_random =
  seed_state :: "nat \<Rightarrow> 'g"
  next_double :: "'g \<Rightarrow> rat \<times> 'g"

text \<open>\<open>n\<close> draws, in order, from a generator state, scaled to the interval.\<close>

fun draws :: "('g \<Rightarrow> rat \<times> 'g) \<Rightarrow> 'g \<Rightarrow> rat \<Rightarrow> rat \<Rightarrow> nat \<Rightarrow> rat list \<times> 'g" where
  "draws nxt g low high 0 = ([], g)"
| "draws nxt g low high (Suc n) =
     (case nxt g of
        (r, g1) \<Rightarrow>
          (case draws nxt g1 low high n of
             (us, g2) \<Rightarrow> ((low + (high - low) * r) # us, g2)))"

text \<open>
  What a call of \<^verbatim>\<open>prepare_dataset\<close> can see and change outside itself: the logger
  switch of the cheminformatics library, and the generator objects of the process. A
  generator is a mutable object: every draw advances the state of the object it is drawn
  from, so two draws from one object differ, whoever makes them.
\<close>

record 'g world =
  rdkit_log :: bool
  generators :: "'g list"

text \<open>
  \<^verbatim>\<open>np.random.default_rng(seed=s)\<close>: a new generator object, in the state the seed
  determines.
\<close>

definition default_rng :: "'g numpy_random \<Rightarrow> nat \<Rightarrow> 'g world \<Rightarrow> nat \<times> 'g world" where
  "default_rng np seed w =
     (length (generators w), w\<lparr>generators := generators w @ [seed_state np seed]\<rparr>)"

text \<open>
  \<^verbatim>\<open>gen.uniform(low, high, size=n)\<close>: \<open>n\<close> draws from the generator object \<open>gen\<close>,
  which is left in the state after the last draw.
\<close>

definition uniform ::
  "'g numpy_random \<Rightarrow> nat \<Rightarrow> rat \<Rightarrow> rat \<Rightarrow> nat \<Rightarrow> 'g world \<Rightarrow> rat list \<times> 'g world" where
  "uniform np gen low high n w =
     (case draws (next_double np) (generators w ! gen) low high n of
        (us, g) \<Rightarrow> (us, w\<lparr>generators := (generators w)[gen := g]\<rparr>))"

text \<open>A row of the table: the index \<^verbatim>\<open>smiles\<close> and the columns \<^verbatim>\<open>x\<close>, \<^verbatim>\<open>y\<close>.\<close>

record row =
  idx_smiles :: string
  col_x :: "8 word list"
  col_y :: fp

text \<open>\<^verbatim>\<open>t.numpy().ravel().item()\<close>: the one element of the tensor, or a ValueError.\<close>

definition item :: "'a tensor \<Rightarrow> error + 'a" where
  "item t = (case elems t of [v] \<Rightarrow> Inr v | _ \<Rightarrow> Inl ValueError)"

text \<open>A list comprehension whose body can raise: the first exception ends it.\<close>

fun comprehension :: "('a \<Rightarrow> error + 'b) \<Rightarrow> 'a list \<Rightarrow> error + 'b list" where
  "comprehension f [] = Inr []"
| "comprehension f (a # as) =
     (case f a of
        Inl e \<Rightarrow> Inl e
      | Inr b \<Rightarrow> (case comprehension f as of Inl e \<Rightarrow> Inl e | Inr bs \<Rightarrow> Inr (b # bs)))"

text \<open>
  \<^verbatim>\<open>pd.DataFrame({"smiles": ..., "x": ..., "y": ...}).set_index("smiles")\<close>: the three
  columns are built one after the other, one entry per sample, and the structure string
  becomes the index label of the row. \<^verbatim>\<open>set_index\<close> keeps every row.
\<close>

definition build_frame :: "'mol rdkit \<Rightarrow> data list \<Rightarrow> error + row list" where
  "build_frame rd data =
     (let ss = map smiles data
      in case comprehension (\<lambda>mol. smiles2fingerprint rd (smiles mol)) data of
           Inl e \<Rightarrow> Inl e
         | Inr xs \<Rightarrow>
             (case comprehension (\<lambda>mol. item (y mol)) data of
                Inl e \<Rightarrow> Inl e
              | Inr ys \<Rightarrow>
                  Inr (map (\<lambda>(s, v, l). \<lparr>idx_smiles = s, col_x = v, col_y = l\<rparr>)
                         (zip ss (zip xs ys)))))"

text \<open>
  \<^verbatim>\<open>df.iloc[mask]\<close> with a boolean array: the positions where the mask is true
  (\<^verbatim>\<open>mask.nonzero()\<close>), and the rows at these positions, in order. A mask whose length is
  not the number of rows raises IndexError.
\<close>

definition nonzero :: "bool list \<Rightarrow> nat list" where
  "nonzero key = filter (\<lambda>i. key ! i) [0..<length key]"

definition iloc :: "'a list \<Rightarrow> bool list \<Rightarrow> error + 'a list" where
  "iloc df key =
     (if length key = length df then Inr (map (\<lambda>i. df ! i) (nonzero key))
      else Inl IndexError)"

text \<open>The first \<open>n\<close> doubles of the stream that the seed 0 starts.\<close>

definition train_split :: "'g numpy_random \<Rightarrow> nat \<Rightarrow> rat list" where
  "train_split np n = fst (draws (next_double np) (seed_state np 0) 0 1 n)"

text \<open>
  The three boolean arrays \<^verbatim>\<open>train_split < 0.8\<close>,
  \<^verbatim>\<open>(train_split < 0.9) & (train_split >= 0.8)\<close> and \<^verbatim>\<open>train_split > 0.9\<close>.
\<close>

definition train_mask :: "rat list \<Rightarrow> bool list" where
  "train_mask split = map (\<lambda>u. u < 0.8) split"

definition valid_mask :: "rat list \<Rightarrow> bool list" where
  "valid_mask split = map (\<lambda>u. u < 0.9 \<and> u \<ge> 0.8) split"

definition tests_mask :: "rat list \<Rightarrow> bool list" where
  "tests_mask split = map (\<lambda>u. u > 0.9) split"

text \<open>
  \<^verbatim>\<open>prepare_dataset(data)\<close>. The first statement makes a generator object from the
  seed 0 and draws one double per sample from it. The logger is switched off before the
  table is built and on again after it; an exception in between leaves it off. The
  samples are only read, so the function takes their contents.
\<close>

definition prepare_dataset ::
  "'g numpy_random \<Rightarrow> 'mol rdkit \<Rightarrow> 'g world \<Rightarrow> data list
     \<Rightarrow> 'g world \<times> (error + row list \<times> row list \<times> row list)" where
  "prepare_dataset np rd w data =
     (case default_rng np 0 w of
        (gen, w1) \<Rightarrow>
          (case uniform np gen 0 1 (length data) w1 of
             (split, w2) \<Rightarrow>
               (case build_frame rd data of
                  Inl e \<Rightarrow> (w2\<lparr>rdkit_log := False\<rparr>, Inl e)
                | Inr df \<Rightarrow>
                    (case iloc df (train_mask split) of
                       Inl e \<Rightarrow> (w2\<lparr>rdkit_log := True\<rparr>, Inl e)
                     | Inr df_train \<Rightarrow>
                         (case iloc df (valid_mask split) of
                            Inl e \<Rightarrow> (w2\<lparr>rdkit_log := True\<rparr>, Inl e)
                          | Inr df_valid \<Rightarrow>
                              (case iloc df (tests_mask split) of
                                 Inl e \<Rightarrow> (w2\<lparr>rdkit_log := True\<rparr>, Inl e)
                               | Inr df_tests \<Rightarrow>
                                   (w2\<lparr>rdkit_log := True\<rparr>,
                                    Inr (df_train, df_valid, df_tests))))))))"

text \<open>
  Stand-ins for the two libraries, for running the functions on examples: a library in
  which every string parses and has the two key bits 0 and 1, and a generator whose
  draws are 0.5, 0.85, 0.9, 0.95 and then the same again. The example world has the
  logger on and one generator object that has already made three draws.
\<close>

definition example_rdkit :: "string rdkit" where
  "example_rdkit = \<lparr>MolFromSmiles = (\<lambda>s. Some s), GenMACCSKeys = (\<lambda>mol. [False, True])\<rparr>"

definition example_random :: "nat numpy_random" where
  "example_random =
     \<lparr>seed_state = (\<lambda>seed. seed),
      next_double = (\<lambda>g. ([1 / 2, 17 / 20, 9 / 10, 19 / 20] ! (g mod 4), Suc g))\<rparr>"

definition example_world :: "nat world" where
  "example_world = \<lparr>rdkit_log = True, generators = [3]\<rparr>"

text \<open>A sample whose label tensor is the 0-dimensional tensor of one value.\<close>

definition scalar_sample :: "string \<Rightarrow> fp \<Rightarrow> data" where
  "scalar_sample s v = \<lparr>smiles = s, y = \<lparr>shape = [], elems = [v]\<rparr>\<rparr>"

section \<open>Class weights\<close>

text \<open>\<^verbatim>\<open>np.unique(ys)\<close>: the distinct values, ascending.\<close>

definition unique :: "'a::linorder list \<Rightarrow> 'a list" where
  "unique ys = sorted_list_of_set (set ys)"

text \<open>
  Modelled from the spec: \<^verbatim>\<open>compute_class_weight(class_weight='balanced', classes, y)\<close>
  of the statistics library, which is not part of the notebook. By section 4.5 of the spec
  the weight of a class \<open>c\<close> is \<open>n_samples / (n_classes * n_samples_in_class_c)\<close>, where
  \<open>n_classes\<close> is the number of distinct labels of \<open>y\<close>, and on labels of a single
  class the computation is undefined and fails with InsufficientClassDiversity. The
  library refuses an empty \<open>y\<close>, and a \<open>classes\<close> array that misses a label of \<open>y\<close> or
  names a label \<open>y\<close> does not have, with a ValueError.
\<close>

definition compute_class_weight :: "'a list \<Rightarrow> 'a list \<Rightarrow> error + rat list" where
  "compute_class_weight classes ys =
     (if ys = [] then Inl ValueError
      else if list_ex (\<lambda>l. l \<notin> set classes) ys \<or> list_ex (\<lambda>c. c \<notin> set ys) classes
      then Inl ValueError
      else if card (set ys) < 2 then Inl InsufficientClassDiversity
      else Inr (map (\<lambda>c. of_nat (length ys) / (of_nat (card (set ys)) * of_nat (count_list ys c)))
                  classes))"

text \<open>
  The weights the training cell computes from the labels of the training partition:
  \<^verbatim>\<open>compute_class_weight(class_weight='balanced', classes=np.unique(df_train.y), y=df_train.y)\<close>.
\<close>

definition class_weights :: "'a::linorder list \<Rightarrow> error + rat list" where
  "class_weights train_y = compute_class_weight (unique train_y) train_y"

section \<open>Metrics\<close>

text \<open>
  The trained model is an object of the boosting library, which is not part of the
  notebook. The spec (sections 3 and 5) gives its contract: a capability that maps a
  feature vector to a predicted probability and is never changed once the trainer has
  returned it. So the model is the function from a feature vector to the pair of class
  probabilities, and \<^verbatim>\<open>model.predict_proba\<close> on a stack of vectors gives one pair per
  vector.
\<close>

type_synonym model = "8 word list \<Rightarrow> rat \<times> rat"

definition predict_proba :: "model \<Rightarrow> 8 word list list \<Rightarrow> (rat \<times> rat) list" where
  "predict_proba model xs = map model xs"

text \<open>
  The ranking metrics of the statistics library are parameters: the precision-recall
  sweep, the area under the ROC curve, and the trapezoidal area under a curve.
\<close>

record sklearn =
  precision_recall_curve :: "fp list \<Rightarrow> rat list \<Rightarrow> error + rat list \<times> rat list"
  roc_auc_score :: "fp list \<Rightarrow> rat list \<Rightarrow> error + rat"
  auc :: "rat list \<Rightarrow> rat list \<Rightarrow> error + rat"

text \<open>
  \<^verbatim>\<open>np.stack(arrays)\<close>: a ValueError for no array at all and for arrays of different
  lengths.
\<close>

definition stack :: "'a list list \<Rightarrow> error + 'a list list" where
  "stack arrays =
     (if arrays = [] \<or> list_ex (\<lambda>a. length a \<noteq> length (hd arrays)) arrays then Inl ValueError
      else Inr arrays)"

text \<open>\<^verbatim>\<open>pred_probs > threshold\<close>, elementwise.\<close>

definition array_gt :: "rat list \<Rightarrow> rat \<Rightarrow> bool list" where
  "array_gt pred_probs threshold = map (\<lambda>p. p > threshold) pred_probs"

text \<open>The number of (true label, prediction) pairs with a property.\<close>

definition count_pairs :: "(fp \<Rightarrow> bool \<Rightarrow> bool) \<Rightarrow> fp list \<Rightarrow> bool list \<Rightarrow> nat" where
  "count_pairs P y_true y_pred = length (filter (\<lambda>(t, p). P t p) (zip y_true y_pred))"

text \<open>
  Modelled from the spec: \<^verbatim>\<open>accuracy_score\<close> of the statistics library, by its
  standard definition: the share of rows whose prediction is the true label. The label
  1.0 is the positive class and 0.0 the negative one; what the library does with other
  labels is not modelled.
\<close>

definition accuracy_score :: "fp list \<Rightarrow> bool list \<Rightarrow> rat" where
  "accuracy_score y_true y_pred =
     of_nat (count_pairs (\<lambda>t p. t = Fin (if p then 1 else 0)) y_true y_pred)
       / of_nat (length y_true)"

text \<open>
  Modelled from the spec: \<^verbatim>\<open>recall_score\<close> of the statistics library, by its standard
  definition: true positives over all positive rows, and 0 when there is no positive row.
\<close>

definition recall_score :: "fp list \<Rightarrow> bool list \<Rightarrow> rat" where
  "recall_score y_true y_pred =
     (let tp = count_pairs (\<lambda>t p. t = Fin 1 \<and> p) y_true y_pred;
          fn = count_pairs (\<lambda>t p. t = Fin 1 \<and> \<not> p) y_true y_pred
      in if tp + fn = 0 then 0 else of_nat tp / of_nat (tp + fn))"

text \<open>
  Modelled from the spec: \<^verbatim>\<open>precision_score\<close> of the statistics library, by its
  standard definition: true positives over all rows predicted positive, and 0 when no row
  is predicted positive.
\<close>

definition precision_score :: "fp list \<Rightarrow> bool list \<Rightarrow> rat" where
  "precision_score y_true y_pred =
     (let tp = count_pairs (\<lambda>t p. t = Fin 1 \<and> p) y_true y_pred;
          fp = count_pairs (\<lambda>t p. t \<noteq> Fin 1 \<and> p) y_true y_pred
      in if tp + fp = 0 then 0 else of_nat tp / of_nat (tp + fp))"

text \<open>
  Modelled from the spec: \<^verbatim>\<open>f1_score\<close> of the statistics library, by its standard
  definition: the harmonic mean of precision and recall, \<open>2 tp / (2 tp + fp + fn)\<close>, and 0
  when that denominator is 0.
\<close>

definition f1_score :: "fp list \<Rightarrow> bool list \<Rightarrow> rat" where
  "f1_score y_true y_pred =
     (let tp = count_pairs (\<lambda>t p. t = Fin 1 \<and> p) y_true y_pred;
          fp = count_pairs (\<lambda>t p. t \<noteq> Fin 1 \<and> p) y_true y_pred;
          fn = count_pairs (\<lambda>t p. t = Fin 1 \<and> \<not> p) y_true y_pred
      in if 2 * tp + fp + fn = 0 then 0 else of_nat (2 * tp) / of_nat (2 * tp + fp + fn))"

record metrics =
  accuracy :: rat
  recall :: rat
  precision :: rat
  f1 :: rat
  roc_auc :: rat
  pr_auc :: rat

text \<open>
  \<^verbatim>\<open>compute_metrics(model, df, threshold)\<close>. The model object and the table are the
  state the function is handed: it returns the metrics (or the exception) together with
  the state it leaves behind. The statistics functions refuse label and score arrays of
  different lengths with a ValueError.
\<close>

definition compute_metrics ::
  "sklearn \<Rightarrow> model \<times> row list \<Rightarrow> rat \<Rightarrow> (error + metrics) \<times> (model \<times> row list)" where
  "compute_metrics sk st threshold =
     (case st of
        (model, df) \<Rightarrow>
          (case stack (map col_x df) of
             Inl e \<Rightarrow> (Inl e, (model, df))
           | Inr xs \<Rightarrow>
               (let pred_probs = map snd (predict_proba model xs);
                    pred = array_gt pred_probs threshold;
                    true = map col_y df
                in if length pred_probs \<noteq> length true then (Inl ValueError, (model, df))
                   else
                     (case precision_recall_curve sk true pred_probs of
                        Inl e \<Rightarrow> (Inl e, (model, df))
                      | Inr (precisions, recalls) \<Rightarrow>
                          (case roc_auc_score sk true pred_probs of
                             Inl e \<Rightarrow> (Inl e, (model, df))
                           | Inr roc \<Rightarrow>
                               (case auc sk recalls precisions of
                                  Inl e \<Rightarrow> (Inl e, (model, df))
                                | Inr pr \<Rightarrow>
                                    (Inr \<lparr>accuracy = accuracy_score true pred,
                                          recall = recall_score true pred,
                                          precision = precision_score true pred,
                                          f1 = f1_score true pred,
                                          roc_auc = roc,
                                          pr_auc = pr\<rparr>,
                                     (model, df))))))))"

text \<open>The probability of the positive class that the model predicts for a row.\<close>

definition prob :: "model \<Rightarrow> row \<Rightarrow> rat" where
  "prob model r = snd (model (col_x r))"

text \<open>The number of rows \<open>i < n\<close> with a property.\<close>

definition count_rows :: "nat \<Rightarrow> (nat \<Rightarrow> bool) \<Rightarrow> nat" where
  "count_rows n P = length (filter P [0..<n])"

text \<open>
  Stand-ins and tables for examples. The stand-in model reads the probability, in
  percent, off the one feature byte of a row; the stand-in ranking functions return
  constants (the ranking metrics play no part in what is proved). \<open>toy_df\<close> is the table
  of the end-to-end scenario: ten rows with the labels 1, 0, 1, 0, ... and the
  probabilities 90, 10, 80, 20, 70, 30, 60, 40, 55, 45 percent. \<open>tie_df\<close> has two rows
  whose probability is exactly 50 percent, one of either label, and a positive row at 90
  percent.
\<close>

definition example_model :: model where
  "example_model = (\<lambda>v. (1 - of_nat (unat (hd v)) / 100, of_nat (unat (hd v)) / 100))"

definition example_sklearn :: sklearn where
  "example_sklearn =
     \<lparr>precision_recall_curve = (\<lambda>y_true scores. Inr ([1, 1], [1, 0])),
      roc_auc_score = (\<lambda>y_true scores. Inr 1),
      auc = (\<lambda>xs ys. Inr 1)\<rparr>"

definition toy_df :: "row list" where
  "toy_df =
     map (\<lambda>(l, p). \<lparr>idx_smiles = ''C'', col_x = [p], col_y = Fin l\<rparr>)
       [(1, 90), (0, 10), (1, 80), (0, 20), (1, 70), (0, 30), (1, 60), (0, 40), (1, 55), (0, 45)]"

definition tie_df :: "row list" where
  "tie_df =
     map (\<lambda>(l, p). \<lparr>idx_smiles = ''C'', col_x = [p], col_y = Fin l\<rparr>)
       [(0, 50), (1, 50), (1, 90)]"

section \<open>The label extractors leave their input alone\<close>

lemma transform_lipo_eq:
  "transform_lipo h r =
     (h @ [(h ! r)\<lparr>y := squeeze (to_float (gt (y (h ! r)) 3.5))\<rparr>], Inr (length h))"
  by (simp add: transform_lipo_def copy_def set_y_def Let_def)

lemma transform_hiv_eq:
  "transform_hiv h r = (h @ [(h ! r)\<lparr>y := squeeze (y (h ! r))\<rparr>], Inr (length h))"
  by (simp add: transform_hiv_def copy_def set_y_def Let_def)

lemma transform_bppp_eq:
  "transform_bppp h r = (h @ [(h ! r)\<lparr>y := squeeze (y (h ! r))\<rparr>], Inr (length h))"
  by (simp add: transform_bppp_def copy_def set_y_def Let_def)

lemma transform_tox21_eq:
  "transform_tox21 h r =
     (case getitem (squeeze (y (h ! r))) 2 of
        Inl e \<Rightarrow> (h @ [h ! r], Inl e)
      | Inr t \<Rightarrow> (h @ [(h ! r)\<lparr>y := t\<rparr>], Inr (length h)))"
  by (simp add: transform_tox21_def copy_def set_y_def Let_def split: sum.splits)

lemma transform_clintox_eq:
  "transform_clintox h r =
     (case getitem (squeeze (y (h ! r))) 0 of
        Inl e \<Rightarrow> (h @ [h ! r], Inl e)
      | Inr t \<Rightarrow> (h @ [(h ! r)\<lparr>y := t\<rparr>], Inr (length h)))"
  by (simp add: transform_clintox_def copy_def set_y_def Let_def split: sum.splits)

text \<open>
  Every extractor allocates one object, the copy, and writes to nothing else: the heap
  grows by one entry at its end.
\<close>

lemma transforms_eq:
  "transforms name h r =
     (case label_of name (y (h ! r)) of
        Inl e \<Rightarrow> (h @ [h ! r], Inl e)
      | Inr t \<Rightarrow> (h @ [(h ! r)\<lparr>y := t\<rparr>], Inr (length h)))"
  by (cases name)
     (simp_all add: transform_lipo_eq transform_hiv_eq transform_bppp_eq
        transform_tox21_eq transform_clintox_eq)

text \<open>
  C10. Every label extractor (\<open>transform_lipo\<close>, \<open>transform_hiv\<close>, \<open>transform_bppp\<close>,
  \<open>transform_tox21\<close>, \<open>transform_clintox\<close>) leaves its input sample unchanged. Whatever
  the extractor does, every object that existed before the call, the input sample among
  them, is what it was: its label tensor and its structure string are unmodified. When
  the extractor returns, it returns a new object, different from the input, that carries
  the input's structure string and the extracted label. The threshold and pass-through
  extractors always return; the indexed ones raise IndexError on a label tensor that has
  no such element, and the input is unchanged then too.
\<close>

theorem transforms_leave_input_unchanged:
  assumes "sample < length h"
  shows "take (length h) (fst (transforms name h sample)) = h
       \<and> fst (transforms name h sample) ! sample = h ! sample
       \<and> (\<forall>s. snd (transforms name h sample) = Inr s \<longrightarrow>
              s = length h \<and> s \<noteq> sample
            \<and> length (fst (transforms name h sample)) = Suc (length h)
            \<and> smiles (fst (transforms name h sample) ! s) = smiles (h ! sample)
            \<and> label_of name (y (h ! sample)) = Inr (y (fst (transforms name h sample) ! s)))
       \<and> (name \<in> {Lipo, Hiv, Bbbp} \<longrightarrow> snd (transforms name h sample) = Inr (length h))"
  using assms
  by (auto simp: transforms_eq nth_append split: sum.splits simp del: transforms.simps)

theorem transforms_leave_input_unchanged_witness:
  "(0::nat) < length [\<lparr>smiles = ''CCO'', y = \<lparr>shape = [1, 3], elems = [NaN, Fin 0, Fin 1]\<rparr>\<rparr>]
   \<and> take 1 (fst (transforms Tox21
        [\<lparr>smiles = ''CCO'', y = \<lparr>shape = [1, 3], elems = [NaN, Fin 0, Fin 1]\<rparr>\<rparr>] 0))
      = [\<lparr>smiles = ''CCO'', y = \<lparr>shape = [1, 3], elems = [NaN, Fin 0, Fin 1]\<rparr>\<rparr>]
   \<and> transforms Tox21 [\<lparr>smiles = ''CCO'', y = \<lparr>shape = [1, 3], elems = [NaN, Fin 0, Fin 1]\<rparr>\<rparr>] 0
      = ([\<lparr>smiles = ''CCO'', y = \<lparr>shape = [1, 3], elems = [NaN, Fin 0, Fin 1]\<rparr>\<rparr>,
          \<lparr>smiles = ''CCO'', y = \<lparr>shape = [], elems = [Fin 1]\<rparr>\<rparr>], Inr 1)"
proof -
  let ?h = "[\<lparr>smiles = ''CCO'', y = \<lparr>shape = [1, 3], elems = [NaN, Fin 0, Fin 1]\<rparr>\<rparr>]"
  have len: "(0::nat) < length ?h" by simp
  have run: "transforms Tox21 ?h 0
      = ([\<lparr>smiles = ''CCO'', y = \<lparr>shape = [1, 3], elems = [NaN, Fin 0, Fin 1]\<rparr>\<rparr>,
          \<lparr>smiles = ''CCO'', y = \<lparr>shape = [], elems = [Fin 1]\<rparr>\<rparr>], Inr 1)"
    by (simp add: transform_tox21_def copy_def set_y_def getitem_def squeeze_def)
  from transforms_leave_input_unchanged [OF len, of Tox21] run len show ?thesis
    by simp
qed

section \<open>The partitioner: what lands where\<close>

lemma comprehension_Inr:
  "comprehension f as = Inr bs \<Longrightarrow> length bs = length as \<and> (\<forall>i<length as. f (as ! i) = Inr (bs ! i))"
proof (induction as arbitrary: bs)
  case Nil
  then show ?case by simp
next
  case (Cons a as)
  from Cons.prems obtain b bs' where fa: "f a = Inr b" and rest: "comprehension f as = Inr bs'"
    and bs: "bs = b # bs'"
    by (auto split: sum.splits)
  from Cons.IH [OF rest] fa bs show ?case
    by (auto simp: nth_Cons split: nat.splits)
qed

lemma length_uniform: "length (fst (draws nxt g low high n)) = n"
proof (induction n arbitrary: g)
  case 0
  show ?case by simp
next
  case (Suc n)
  obtain r g1 where step: "nxt g = (r, g1)" by (cases "nxt g")
  obtain us g2 where rest: "draws nxt g1 low high n = (us, g2)"
    by (cases "draws nxt g1 low high n")
  from Suc.IH [of g1] rest have "length us = n" by simp
  with step rest show ?case by simp
qed

lemma length_train_split: "length (train_split np n) = n"
  by (simp add: train_split_def length_uniform)

lemma build_frame_Inr:
  assumes "build_frame rd data = Inr df"
  shows "length df = length data" and "map idx_smiles df = map smiles data"
proof -
  from assms obtain xs ys where
    xs: "comprehension (\<lambda>mol. smiles2fingerprint rd (smiles mol)) data = Inr xs" and
    ys: "comprehension (\<lambda>mol. item (y mol)) data = Inr ys" and
    df: "df = map (\<lambda>(s, v, l). \<lparr>idx_smiles = s, col_x = v, col_y = l\<rparr>)
                 (zip (map smiles data) (zip xs ys))"
    by (auto simp: build_frame_def Let_def split: sum.splits)
  have lx: "length xs = length data" and ly: "length ys = length data"
    using comprehension_Inr [OF xs] comprehension_Inr [OF ys] by simp_all
  show "length df = length data" by (simp add: df lx ly)
  show "map idx_smiles df = map smiles data"
    by (rule nth_equalityI) (simp_all add: df lx ly)
qed

lemma set_nonzero: "set (nonzero key) = {i. i < length key \<and> key ! i}"
  by (auto simp: nonzero_def)

lemma distinct_nonzero: "distinct (nonzero key)"
  by (simp add: nonzero_def)

lemma iloc_Inr:
  "length key = length df \<Longrightarrow> iloc df key = Inr (map (\<lambda>i. df ! i) (nonzero key))"
  by (simp add: iloc_def)

lemma length_masks:
  "length (train_mask us) = length us" "length (valid_mask us) = length us"
  "length (tests_mask us) = length us"
  by (simp_all add: train_mask_def valid_mask_def tests_mask_def)

text \<open>
  A generator object that has just been made from a seed gives the first doubles of the
  stream the seed starts, whatever else the world holds; the object is appended to the
  generator objects of the world and no other object is advanced.
\<close>

lemma seeded_draws:
  "uniform np (length (generators w)) low high n
       (w\<lparr>generators := generators w @ [seed_state np seed]\<rparr>)
     = (fst (draws (next_double np) (seed_state np seed) low high n),
        w\<lparr>generators :=
             generators w @ [snd (draws (next_double np) (seed_state np seed) low high n)]\<rparr>)"
  by (simp add: uniform_def split: prod.splits)

text \<open>
  When the table can be built, the call returns the three selections of its rows and
  leaves the logger on; when it cannot, the call raises and leaves the logger off. Either
  way the world has one generator object more, and the draws were made from that one.
\<close>

lemma prepare_dataset_total:
  assumes "build_frame rd data = Inr df"
  shows "prepare_dataset np rd w data =
     (w\<lparr>generators :=
           generators w @ [snd (draws (next_double np) (seed_state np 0) 0 1 (length data))],
        rdkit_log := True\<rparr>,
      Inr (map (\<lambda>i. df ! i) (nonzero (train_mask (train_split np (length data)))),
       map (\<lambda>i. df ! i) (nonzero (valid_mask (train_split np (length data)))),
       map (\<lambda>i. df ! i) (nonzero (tests_mask (train_split np (length data))))))"
proof -
  have l: "length (train_split np (length data)) = length df"
    using build_frame_Inr(1) [OF assms] by (simp add: length_train_split)
  show ?thesis
    by (simp only: prepare_dataset_def default_rng_def prod.case seeded_draws
          train_split_def [symmetric] assms sum.case iloc_Inr length_masks l)
qed

lemma prepare_dataset_error:
  assumes "build_frame rd data = Inl e"
  shows "prepare_dataset np rd w data =
     (w\<lparr>generators :=
           generators w @ [snd (draws (next_double np) (seed_state np 0) 0 1 (length data))],
        rdkit_log := False\<rparr>,
      Inl e)"
  by (simp only: prepare_dataset_def default_rng_def prod.case seeded_draws assms sum.case)

lemma prepare_dataset_Inr:
  assumes "snd (prepare_dataset np rd w data) = Inr (df_train, df_valid, df_tests)"
  shows "\<exists>df. build_frame rd data = Inr df \<and> length df = length data
     \<and> df_train = map (\<lambda>i. df ! i) (nonzero (train_mask (train_split np (length data))))
     \<and> df_valid = map (\<lambda>i. df ! i) (nonzero (valid_mask (train_split np (length data))))
     \<and> df_tests = map (\<lambda>i. df ! i) (nonzero (tests_mask (train_split np (length data))))"
proof (cases "build_frame rd data")
  case (Inl e)
  from assms have False
    by (simp only: prepare_dataset_error [OF Inl] snd_conv sum.distinct)
  then show ?thesis ..
next
  case (Inr df)
  from assms have
    "map (\<lambda>i. df ! i) (nonzero (train_mask (train_split np (length data)))) = df_train
     \<and> map (\<lambda>i. df ! i) (nonzero (valid_mask (train_split np (length data)))) = df_valid
     \<and> map (\<lambda>i. df ! i) (nonzero (tests_mask (train_split np (length data)))) = df_tests"
    by (simp only: prepare_dataset_total [OF Inr] snd_conv sum.inject prod.inject)
  with Inr build_frame_Inr(1) [OF Inr] show ?thesis by blast
qed

lemma in_nonzero_masks:
  assumes "i < length us"
  shows "i \<in> set (nonzero (train_mask us)) \<longleftrightarrow> us ! i < 0.8"
    and "i \<in> set (nonzero (valid_mask us)) \<longleftrightarrow> 0.8 \<le> us ! i \<and> us ! i < 0.9"
    and "i \<in> set (nonzero (tests_mask us)) \<longleftrightarrow> us ! i > 0.9"
  using assms
  by (auto simp: set_nonzero train_mask_def valid_mask_def tests_mask_def)

text \<open>
  C2. The partitioner returns the rows of the table at the selected positions, in order,
  and row \<open>i\<close>, whose draw is \<open>u\<close>, is selected for train if and only if \<open>u < 0.8\<close>,
  for validation if and only if \<open>0.8 \<le> u < 0.9\<close>, and for test if and only if
  \<open>u > 0.9\<close>. So no row is in two partitions (and none is twice in one), and a row whose
  draw is exactly 0.9 is in none.
\<close>

theorem prepare_dataset_partition:
  assumes "snd (prepare_dataset np rd w data) = Inr (df_train, df_valid, df_tests)"
    and "i < length data"
  shows "\<exists>df. build_frame rd data = Inr df \<and> length df = length data
     \<and> length (train_split np (length data)) = length data
     \<and> df_train = map (\<lambda>i. df ! i) (nonzero (train_mask (train_split np (length data))))
     \<and> df_valid = map (\<lambda>i. df ! i) (nonzero (valid_mask (train_split np (length data))))
     \<and> df_tests = map (\<lambda>i. df ! i) (nonzero (tests_mask (train_split np (length data))))
     \<and> (i \<in> set (nonzero (train_mask (train_split np (length data))))
          \<longleftrightarrow> train_split np (length data) ! i < 0.8)
     \<and> (i \<in> set (nonzero (valid_mask (train_split np (length data))))
          \<longleftrightarrow> 0.8 \<le> train_split np (length data) ! i \<and> train_split np (length data) ! i < 0.9)
     \<and> (i \<in> set (nonzero (tests_mask (train_split np (length data))))
          \<longleftrightarrow> train_split np (length data) ! i > 0.9)
     \<and> \<not> (i \<in> set (nonzero (train_mask (train_split np (length data))))
          \<and> i \<in> set (nonzero (valid_mask (train_split np (length data)))))
     \<and> \<not> (i \<in> set (nonzero (train_mask (train_split np (length data))))
          \<and> i \<in> set (nonzero (tests_mask (train_split np (length data)))))
     \<and> \<not> (i \<in> set (nonzero (valid_mask (train_split np (length data))))
          \<and> i \<in> set (nonzero (tests_mask (train_split np (length data)))))
     \<and> (train_split np (length data) ! i = 0.9 \<longrightarrow>
            i \<notin> set (nonzero (train_mask (train_split np (length data))))
          \<and> i \<notin> set (nonzero (valid_mask (train_split np (length data))))
          \<and> i \<notin> set (nonzero (tests_mask (train_split np (length data)))))
     \<and> distinct (nonzero (train_mask (train_split np (length data))))
     \<and> distinct (nonzero (valid_mask (train_split np (length data))))
     \<and> distinct (nonzero (tests_mask (train_split np (length data))))"
proof -
  let ?us = "train_split np (length data)"
  have i: "i < length ?us" using assms(2) by (simp add: length_train_split)
  note m = in_nonzero_masks [OF i]
  from prepare_dataset_Inr [OF assms(1)] obtain df where
    df: "build_frame rd data = Inr df" "length df = length data"
      "df_train = map (\<lambda>i. df ! i) (nonzero (train_mask ?us))"
      "df_valid = map (\<lambda>i. df ! i) (nonzero (valid_mask ?us))"
      "df_tests = map (\<lambda>i. df ! i) (nonzero (tests_mask ?us))"
    by blast
  have excl: "\<not> (i \<in> set (nonzero (train_mask ?us)) \<and> i \<in> set (nonzero (valid_mask ?us)))"
    "\<not> (i \<in> set (nonzero (train_mask ?us)) \<and> i \<in> set (nonzero (tests_mask ?us)))"
    "\<not> (i \<in> set (nonzero (valid_mask ?us)) \<and> i \<in> set (nonzero (tests_mask ?us)))"
    unfolding m by auto
  have nine: "?us ! i = 0.9 \<longrightarrow>
            i \<notin> set (nonzero (train_mask ?us))
          \<and> i \<notin> set (nonzero (valid_mask ?us))
          \<and> i \<notin> set (nonzero (tests_mask ?us))"
    unfolding m by auto
  show ?thesis
    using df m excl nine distinct_nonzero length_train_split [of np "length data"]
    by blast
qed

theorem prepare_dataset_partition_witness:
  "snd (prepare_dataset example_random example_rdkit example_world
          [scalar_sample ''C'' (Fin 1), scalar_sample ''CC'' (Fin 0),
           scalar_sample ''CCC'' (Fin 1), scalar_sample ''CCCC'' (Fin 0)])
     = Inr ([\<lparr>idx_smiles = ''C'', col_x = [0, 1], col_y = Fin 1\<rparr>],
            [\<lparr>idx_smiles = ''CC'', col_x = [0, 1], col_y = Fin 0\<rparr>],
            [\<lparr>idx_smiles = ''CCCC'', col_x = [0, 1], col_y = Fin 0\<rparr>])
   \<and> train_split example_random 4 = [0.5, 0.85, 0.9, 0.95]
   \<and> 2 \<notin> set (nonzero (train_mask (train_split example_random 4)))
   \<and> 2 \<notin> set (nonzero (valid_mask (train_split example_random 4)))
   \<and> 2 \<notin> set (nonzero (tests_mask (train_split example_random 4)))"
proof -
  let ?data = "[scalar_sample ''C'' (Fin 1), scalar_sample ''CC'' (Fin 0),
           scalar_sample ''CCC'' (Fin 1), scalar_sample ''CCCC'' (Fin 0)]"
  have run: "snd (prepare_dataset example_random example_rdkit example_world ?data)
     = Inr ([\<lparr>idx_smiles = ''C'', col_x = [0, 1], col_y = Fin 1\<rparr>],
            [\<lparr>idx_smiles = ''CC'', col_x = [0, 1], col_y = Fin 0\<rparr>],
            [\<lparr>idx_smiles = ''CCCC'', col_x = [0, 1], col_y = Fin 0\<rparr>])"
    by code_simp
  have i: "(2::nat) < length ?data" by simp
  have us: "train_split example_random 4 = [0.5, 0.85, 0.9, 0.95]" by code_simp
  have len: "length ?data = 4" by simp
  from prepare_dataset_partition [OF run i] have
    "train_split example_random 4 ! 2 = 0.9 \<longrightarrow>
       2 \<notin> set (nonzero (train_mask (train_split example_random 4)))
     \<and> 2 \<notin> set (nonzero (valid_mask (train_split example_random 4)))
     \<and> 2 \<notin> set (nonzero (tests_mask (train_split example_random 4)))"
    unfolding len by blast
  moreover have "train_split example_random 4 ! 2 = 0.9" unfolding us by simp
  ultimately show ?thesis using run us by blast
qed

lemma prepare_dataset_result:
  "snd (prepare_dataset np rd w data) =
     (case build_frame rd data of
        Inl e \<Rightarrow> Inl e
      | Inr df \<Rightarrow>
          Inr (map (\<lambda>i. df ! i) (nonzero (train_mask (train_split np (length data)))),
               map (\<lambda>i. df ! i) (nonzero (valid_mask (train_split np (length data)))),
               map (\<lambda>i. df ! i) (nonzero (tests_mask (train_split np (length data))))))"
proof (cases "build_frame rd data")
  case (Inl e)
  show ?thesis by (simp only: prepare_dataset_error [OF Inl] Inl snd_conv sum.case)
next
  case (Inr df)
  show ?thesis by (simp only: prepare_dataset_total [OF Inr] Inr snd_conv sum.case)
qed

lemma prepare_dataset_generators:
  "generators (fst (prepare_dataset np rd w data))
     = generators w @ [snd (draws (next_double np) (seed_state np 0) 0 1 (length data))]"
proof (cases "build_frame rd data")
  case (Inl e)
  show ?thesis by (simp add: prepare_dataset_error [OF Inl])
next
  case (Inr df)
  show ?thesis by (simp add: prepare_dataset_total [OF Inr])
qed

text \<open>
  Generator objects are stateful: a second batch of draws from the same object continues
  the stream, it does not repeat the first. A partitioner that kept one generator object
  across calls would split the same rows differently on the second call.
\<close>

lemma one_object_continues_its_stream:
  "fst (uniform example_random 1 0 1 2 (snd (default_rng example_random 0 example_world)))
     = [0.5, 0.85]
   \<and> fst (uniform example_random 1 0 1 2
            (snd (uniform example_random 1 0 1 2
                    (snd (default_rng example_random 0 example_world)))))
     = [0.9, 0.95]"
  by code_simp

text \<open>
  C3. The partitioner is reproducible. Every call makes a new generator object from the
  seed 0 and draws from that object alone, so its draws are the first doubles of the
  stream the seed 0 starts: they do not depend on the generator objects the world
  already holds, nor on how far earlier calls have advanced them, nor on the logger
  switch. So two calls on the same samples, in any two worlds and in particular one
  after the other, return the same train, validation and test tables (or the same
  exception); and a call advances none of the generator objects it found.
\<close>

theorem prepare_dataset_reproducible:
  "snd (prepare_dataset np rd w data) = snd (prepare_dataset np rd w' data)
   \<and> snd (prepare_dataset np rd (fst (prepare_dataset np rd w data)) data)
       = snd (prepare_dataset np rd w data)
   \<and> fst (uniform np (fst (default_rng np 0 w)) 0 1 (length data) (snd (default_rng np 0 w)))
       = train_split np (length data)
   \<and> take (length (generators w)) (generators (fst (prepare_dataset np rd w data)))
       = generators w"
  by (simp add: prepare_dataset_result prepare_dataset_generators default_rng_def seeded_draws
        train_split_def)

section \<open>The structure string as a key\<close>

lemma distinct_rows_at:
  assumes "distinct ks" and "distinct ps" and "set ps \<subseteq> {..<length ks}"
  shows "distinct (map (\<lambda>i. ks ! i) ps)"
proof -
  have "inj_on (\<lambda>i. ks ! i) {..<length ks}"
    using assms(1) by (auto simp: inj_on_def nth_eq_iff_index_eq)
  then have "inj_on (\<lambda>i. ks ! i) (set ps)"
    using assms(3) by (rule inj_on_subset)
  with assms(2) show ?thesis by (simp add: distinct_map)
qed

text \<open>
  C9, as the claim states it, fails: the table has one row per sample and
  \<^verbatim>\<open>set_index\<close> does not look for duplicates, so two samples with the same structure
  string give two rows with the same key. Here both rows are built, and one lands in
  train and the other in validation.
\<close>

theorem structure_key_not_unique:
  "build_frame example_rdkit [scalar_sample ''C'' (Fin 1), scalar_sample ''C'' (Fin 0)]
     = Inr [\<lparr>idx_smiles = ''C'', col_x = [0, 1], col_y = Fin 1\<rparr>,
            \<lparr>idx_smiles = ''C'', col_x = [0, 1], col_y = Fin 0\<rparr>]
   \<and> snd (prepare_dataset example_random example_rdkit example_world
            [scalar_sample ''C'' (Fin 1), scalar_sample ''C'' (Fin 0)])
     = Inr ([\<lparr>idx_smiles = ''C'', col_x = [0, 1], col_y = Fin 1\<rparr>],
            [\<lparr>idx_smiles = ''C'', col_x = [0, 1], col_y = Fin 0\<rparr>], [])
   \<and> idx_smiles \<lparr>idx_smiles = ''C'', col_x = [0, 1], col_y = Fin 1\<rparr>
     = idx_smiles \<lparr>idx_smiles = ''C'', col_x = [0, 1], col_y = Fin 0\<rparr>
   \<and> \<lparr>idx_smiles = ''C'', col_x = [0, 1], col_y = Fin 1\<rparr>
     \<noteq> \<lparr>idx_smiles = ''C'', col_x = [0, 1], col_y = Fin 0\<rparr>"
  by code_simp

text \<open>
  C9, amended. The table has one row per input sample, in order, keyed by the sample's
  structure string. If no two input samples share a structure string, then no two rows
  of the table share one, and neither do two rows of a partition.
\<close>

theorem structure_key_unique_if_input_unique:
  assumes "snd (prepare_dataset np rd w data) = Inr (df_train, df_valid, df_tests)"
    and "distinct (map smiles data)"
  shows "\<exists>df. build_frame rd data = Inr df
     \<and> map idx_smiles df = map smiles data
     \<and> distinct (map idx_smiles df)
     \<and> distinct (map idx_smiles df_train)
     \<and> distinct (map idx_smiles df_valid)
     \<and> distinct (map idx_smiles df_tests)"
proof -
  let ?us = "train_split np (length data)"
  from prepare_dataset_Inr [OF assms(1)] obtain df where
    df: "build_frame rd data = Inr df" "length df = length data"
      "df_train = map (\<lambda>i. df ! i) (nonzero (train_mask ?us))"
      "df_valid = map (\<lambda>i. df ! i) (nonzero (valid_mask ?us))"
      "df_tests = map (\<lambda>i. df ! i) (nonzero (tests_mask ?us))"
    by blast
  have keys: "map idx_smiles df = map smiles data" by (rule build_frame_Inr(2) [OF df(1)])
  with assms(2) have dk: "distinct (map idx_smiles df)" by simp
  have part: "distinct (map idx_smiles (map (\<lambda>i. df ! i) (nonzero key)))"
    if "length key = length data" for key
  proof -
    have sub: "set (nonzero key) \<subseteq> {..<length (map idx_smiles df)}"
      using that df(2) by (auto simp: set_nonzero)
    have eq: "map idx_smiles (map (\<lambda>i. df ! i) (nonzero key))
            = map (\<lambda>i. map idx_smiles df ! i) (nonzero key)"
      using that df(2) by (auto simp: set_nonzero)
    show ?thesis
      unfolding eq by (rule distinct_rows_at [OF dk distinct_nonzero sub])
  qed
  have "distinct (map idx_smiles df_train)" "distinct (map idx_smiles df_valid)"
    "distinct (map idx_smiles df_tests)"
    unfolding df(3-5) by (rule part, simp add: length_masks length_train_split)+
  with df(1) keys dk show ?thesis by blast
qed

theorem structure_key_unique_if_input_unique_witness:
  "snd (prepare_dataset example_random example_rdkit example_world
          [scalar_sample ''C'' (Fin 1), scalar_sample ''CC'' (Fin 0)])
     = Inr ([\<lparr>idx_smiles = ''C'', col_x = [0, 1], col_y = Fin 1\<rparr>],
            [\<lparr>idx_smiles = ''CC'', col_x = [0, 1], col_y = Fin 0\<rparr>], [])
   \<and> distinct (map smiles [scalar_sample ''C'' (Fin 1), scalar_sample ''CC'' (Fin 0)])
   \<and> distinct (map idx_smiles [\<lparr>idx_smiles = ''C'', col_x = [0, 1], col_y = Fin 1\<rparr>])
   \<and> distinct (map idx_smiles [\<lparr>idx_smiles = ''CC'', col_x = [0, 1], col_y = Fin 0\<rparr>])"
proof -
  let ?data = "[scalar_sample ''C'' (Fin 1), scalar_sample ''CC'' (Fin 0)]"
  have run: "snd (prepare_dataset example_random example_rdkit example_world ?data)
     = Inr ([\<lparr>idx_smiles = ''C'', col_x = [0, 1], col_y = Fin 1\<rparr>],
            [\<lparr>idx_smiles = ''CC'', col_x = [0, 1], col_y = Fin 0\<rparr>], [])"
    by code_simp
  have d: "distinct (map smiles ?data)" by (simp add: scalar_sample_def)
  from structure_key_unique_if_input_unique [OF run d] run d show ?thesis by blast
qed

section \<open>The labels that survive the filter\<close>

lemma label_of_Lipo_elems:
  "label_of Lipo t = Inr t' \<Longrightarrow> set (elems t') \<subseteq> {Fin 0, Fin 1}"
  by (auto simp: squeeze_def to_float_def gt_def)

lemma is_y_not_na_True:
  "is_y_not_na sample = Inr True \<Longrightarrow> \<exists>v. elems (y sample) = [v] \<and> v \<noteq> NaN"
  by (auto simp: is_y_not_na_def tensor_bool_def isnan_def split: sum.splits list.splits
           elim: fp_isnan.elims)

text \<open>
  What a run of the loading loop leaves behind: the old objects as they were, and for
  every surviving reference a new object that passed the filter and carries the label
  extracted from one of the raw samples.
\<close>

lemma filter_map_series_survivors:
  assumes "filter_map_series (transforms name) h rs = (h', Inr out)"
    and "\<forall>r\<in>set rs. r < length h"
  shows "take (length h) h' = h \<and> length h \<le> length h'
       \<and> (\<forall>s\<in>set out. length h \<le> s \<and> s < length h'
             \<and> is_y_not_na (h' ! s) = Inr True
             \<and> (\<exists>r\<in>set rs. smiles (h' ! s) = smiles (h ! r)
                    \<and> label_of name (y (h ! r)) = Inr (y (h' ! s))))"
  using assms
proof (induction rs arbitrary: h h' out)
  case Nil
  then show ?case by simp
next
  case (Cons r rs)
  from Cons.prems(2) have r: "r < length h" and rs: "\<forall>q\<in>set rs. q < length h" by simp_all
  note step = transforms_eq [of name h r]
  from Cons.prems(1) obtain t keep out' where
    t: "label_of name (y (h ! r)) = Inr t" and
    keep: "is_y_not_na ((h ! r)\<lparr>y := t\<rparr>) = Inr keep" and
    rest: "filter_map_series (transforms name) (h @ [(h ! r)\<lparr>y := t\<rparr>]) rs = (h', Inr out')" and
    out: "out = (if keep then length h # out' else out')"
    by (auto simp: step split: sum.splits prod.splits)
  let ?h1 = "h @ [(h ! r)\<lparr>y := t\<rparr>]"
  have rs1: "\<forall>q\<in>set rs. q < length ?h1" using rs by auto
  from Cons.IH [OF rest rs1] have
    pre: "take (length ?h1) h' = ?h1" and le: "length ?h1 \<le> length h'" and
    sv: "\<forall>s\<in>set out'. length ?h1 \<le> s \<and> s < length h'
             \<and> is_y_not_na (h' ! s) = Inr True
             \<and> (\<exists>q\<in>set rs. smiles (h' ! s) = smiles (?h1 ! q)
                    \<and> label_of name (y (?h1 ! q)) = Inr (y (h' ! s)))"
    by blast+
  have nth1: "h' ! i = ?h1 ! i" if "i < length ?h1" for i
    using that pre by (metis nth_take)
  have pre0: "take (length h) h' = h"
  proof -
    have "h' = ?h1 @ drop (length ?h1) h'" using pre by (metis append_take_drop_id)
    then have "h' = h @ ((h ! r)\<lparr>y := t\<rparr> # drop (length ?h1) h')" by simp
    then show ?thesis by (metis append_eq_conv_conj)
  qed
  have old: "?h1 ! q = h ! q" if "q < length h" for q using that by (simp add: nth_append)
  have new: "h' ! length h = (h ! r)\<lparr>y := t\<rparr>" using nth1 [of "length h"] by simp
  have tail: "\<forall>s\<in>set out'. length h \<le> s \<and> s < length h'
             \<and> is_y_not_na (h' ! s) = Inr True
             \<and> (\<exists>q\<in>set (r # rs). smiles (h' ! s) = smiles (h ! q)
                    \<and> label_of name (y (h ! q)) = Inr (y (h' ! s)))"
  proof
    fix s assume s: "s \<in> set out'"
    from sv s obtain q where q: "q \<in> set rs" "smiles (h' ! s) = smiles (?h1 ! q)"
      "label_of name (y (?h1 ! q)) = Inr (y (h' ! s))" and
      b: "length ?h1 \<le> s" "s < length h'" "is_y_not_na (h' ! s) = Inr True"
      by blast
    from q(1) rs have "q < length h" by blast
    with q old [of q] b show "length h \<le> s \<and> s < length h'
             \<and> is_y_not_na (h' ! s) = Inr True
             \<and> (\<exists>q\<in>set (r # rs). smiles (h' ! s) = smiles (h ! q)
                    \<and> label_of name (y (h ! q)) = Inr (y (h' ! s)))"
      by auto
  qed
  have head: "keep \<Longrightarrow> length h \<le> length h \<and> length h < length h'
             \<and> is_y_not_na (h' ! length h) = Inr True
             \<and> (\<exists>q\<in>set (r # rs). smiles (h' ! length h) = smiles (h ! q)
                    \<and> label_of name (y (h ! q)) = Inr (y (h' ! length h)))"
    using le keep t new by auto
  from pre0 le tail head out show ?case by auto
qed

text \<open>
  The loop in closed form when every sample survives, and the example dataset.
\<close>

lemma filter_map_series_all_kept:
  assumes "\<forall>r\<in>set rs. r < length h \<and> label_of name (y (h ! r)) = Inr (lab r)
              \<and> is_y_not_na ((h ! r)\<lparr>y := lab r\<rparr>) = Inr True"
  shows "filter_map_series (transforms name) h rs
           = (h @ map (\<lambda>r. (h ! r)\<lparr>y := lab r\<rparr>) rs, Inr [length h..<length h + length rs])"
  using assms
proof (induction rs arbitrary: h)
  case Nil
  show ?case by simp
next
  case (Cons r rs)
  let ?h1 = "h @ [(h ! r)\<lparr>y := lab r\<rparr>]"
  from Cons.prems have r: "r < length h" "label_of name (y (h ! r)) = Inr (lab r)"
    "is_y_not_na ((h ! r)\<lparr>y := lab r\<rparr>) = Inr True"
    by simp_all
  have old: "?h1 ! q = h ! q" if "q \<in> set rs" for q
    using that Cons.prems by (simp add: nth_append)
  have "\<forall>q\<in>set rs. q < length ?h1 \<and> label_of name (y (?h1 ! q)) = Inr (lab q)
              \<and> is_y_not_na ((?h1 ! q)\<lparr>y := lab q\<rparr>) = Inr True"
    using Cons.prems old by auto
  from Cons.IH [OF this] have rest:
    "filter_map_series (transforms name) ?h1 rs
       = (?h1 @ map (\<lambda>q. (?h1 ! q)\<lparr>y := lab q\<rparr>) rs, Inr [length ?h1..<length ?h1 + length rs])" .
  have m: "map (\<lambda>q. (?h1 ! q)\<lparr>y := lab q\<rparr>) rs = map (\<lambda>q. (h ! q)\<lparr>y := lab q\<rparr>) rs"
    using old by (simp cong: map_cong)
  have u: "length h # [length ?h1..<length ?h1 + length rs]
             = [length h..<length h + length (r # rs)]"
    using upt_rec [of "length h" "length h + length (r # rs)"] by simp
  note step = transforms_eq [of name h r]
  have "filter_map_series (transforms name) h (r # rs)
          = (?h1 @ map (\<lambda>q. (h ! q)\<lparr>y := lab q\<rparr>) rs,
             Inr (length h # [length ?h1..<length ?h1 + length rs]))"
    by (simp add: step r rest m del: upt_Suc)
  then show ?case unfolding u by simp
qed

lemma check_first_ok:
  "\<forall>i\<in>set ks. i < length data \<and> check_sample (hp ! (data ! i)) = Inr () \<Longrightarrow>
     check_first hp data ks = Inr ()"
  by (induction ks) auto

lemma load_all_kept:
  assumes kept: "\<forall>r\<in>set raw. r < length h \<and> label_of name (y (h ! r)) = Inr (lab r)
              \<and> is_y_not_na ((h ! r)\<lparr>y := lab r\<rparr>) = Inr True"
    and len: "100 \<le> length raw"
    and chk: "\<forall>i<100. check_sample ((h ! (raw ! i))\<lparr>y := lab (raw ! i)\<rparr>) = Inr ()"
  shows "load_dataset name h raw
           = (h @ map (\<lambda>r. (h ! r)\<lparr>y := lab r\<rparr>) raw, Inr [length h..<length h + length raw])"
proof -
  let ?h' = "h @ map (\<lambda>r. (h ! r)\<lparr>y := lab r\<rparr>) raw"
  let ?data = "[length h..<length h + length raw]"
  note run = filter_map_series_all_kept [OF kept]
  have "i < length ?data \<and> check_sample (?h' ! (?data ! i)) = Inr ()" if "i < 100" for i
  proof -
    from that len have i: "i < length raw" by simp
    then have "?data ! i = length h + i" by simp
    moreover have "?h' ! (length h + i) = (h ! (raw ! i))\<lparr>y := lab (raw ! i)\<rparr>"
      using i by (simp add: nth_append)
    ultimately show ?thesis using chk that i by simp
  qed
  note ok = this
  have "check_first ?h' ?data [0..<100] = Inr ()"
  proof (rule check_first_ok, rule ballI)
    fix i :: nat
    assume "i \<in> set [0..<100]"
    then have "i < 100" by (simp del: upt_rec_numeral)
    then show "i < length ?data \<and> check_sample (?h' ! (?data ! i)) = Inr ()" by (rule ok)
  qed
  with run show ?thesis by (simp add: load_dataset_def del: upt_rec_numeral)
qed

lemma example_heap_nth:
  "r < 100 \<Longrightarrow> example_heap ! r = tox21_sample ''C'' (Fin 1)"
  "example_heap ! 100 = tox21_sample ''CC'' (Fin 0)"
  "length example_heap = 101"
  by (simp_all add: example_heap_def nth_append)

lemma label_of_tox21_sample:
  "getitem (squeeze (y (tox21_sample s v))) 2 = Inr \<lparr>shape = [], elems = [v]\<rparr>"
  by (simp add: tox21_sample_def squeeze_def getitem_def)

lemma load_example:
  "load_dataset Tox21 example_heap [0..<101]
     = (example_heap
          @ map (\<lambda>r. (example_heap ! r)\<lparr>y := \<lparr>shape = [], elems = [if r < 100 then Fin 1 else Fin 0]\<rparr>\<rparr>)
              [0..<101],
        Inr [101..<202])"
proof -
  let ?lab = "\<lambda>r::nat. \<lparr>shape = [], elems = [if r < 100 then Fin 1 else Fin 0 :: fp]\<rparr>"
  have sample: "label_of Tox21 (y (example_heap ! r)) = Inr (?lab r)
      \<and> is_y_not_na ((example_heap ! r)\<lparr>y := ?lab r\<rparr>) = Inr True
      \<and> check_sample ((example_heap ! r)\<lparr>y := ?lab r\<rparr>) = Inr ()" if "r < 101" for r
  proof (cases "r < 100")
    case True
    then show ?thesis
      by (simp add: example_heap_nth label_of_tox21_sample is_y_not_na_def tensor_bool_def
            isnan_def check_sample_def isclose_def)
  next
    case False
    with that have "r = 100" by simp
    then show ?thesis
      by (simp add: example_heap_nth label_of_tox21_sample is_y_not_na_def tensor_bool_def
            isnan_def check_sample_def isclose_def)
  qed
  have kept: "\<forall>r\<in>set [0..<101]. r < length example_heap
      \<and> label_of Tox21 (y (example_heap ! r)) = Inr (?lab r)
      \<and> is_y_not_na ((example_heap ! r)\<lparr>y := ?lab r\<rparr>) = Inr True"
    using sample by (simp add: example_heap_nth del: upt_rec_numeral)
  have len: "100 \<le> length [0..<101]" by (simp del: upt_rec_numeral)
  have chk: "\<forall>i<100. check_sample ((example_heap ! ([0..<101] ! i))\<lparr>y := ?lab ([0..<101] ! i)\<rparr>)
      = Inr ()"
  proof (intro allI impI)
    fix i :: nat
    assume i: "i < 100"
    then have nth: "[0..<101] ! i = i" by (simp del: upt_rec_numeral)
    from i have "i < 101" by simp
    from sample [OF this] show
      "check_sample ((example_heap ! ([0..<101] ! i))\<lparr>y := ?lab ([0..<101] ! i)\<rparr>) = Inr ()"
      unfolding nth by blast
  qed
  from load_all_kept [OF kept len chk] show ?thesis
    by (simp add: example_heap_nth del: upt_rec_numeral)
qed

text \<open>
  What the extractors select from a label tensor as the loader delivers it, one row of
  \<open>n\<close> entries: hiv and bbbp (\<open>n = 1\<close>) the one entry, clintox the entry at index 0 and
  tox21 the entry at index 2. The other entries of the row play no part.
\<close>

lemma label_of_row:
  assumes "shape t = [1, n]" and "length (elems t) = n"
  shows "n = 1 \<Longrightarrow> label_of Hiv t = Inr \<lparr>shape = [], elems = elems t\<rparr>"
    and "n = 1 \<Longrightarrow> label_of Bbbp t = Inr \<lparr>shape = [], elems = elems t\<rparr>"
    and "1 < n \<Longrightarrow> label_of Clintox t = Inr \<lparr>shape = [], elems = [elems t ! 0]\<rparr>"
    and "2 < n \<Longrightarrow> label_of Tox21 t = Inr \<lparr>shape = [], elems = [elems t ! 2]\<rparr>"
proof -
  have slice: "take 1 (drop i (elems t)) = [elems t ! i]" if "i < n" for i
    using that assms(2) by (simp add: take_Suc_conv_app_nth)
  show "n = 1 \<Longrightarrow> label_of Hiv t = Inr \<lparr>shape = [], elems = elems t\<rparr>"
    and "n = 1 \<Longrightarrow> label_of Bbbp t = Inr \<lparr>shape = [], elems = elems t\<rparr>"
    using assms(1) by (simp_all add: squeeze_def)
  show "1 < n \<Longrightarrow> label_of Clintox t = Inr \<lparr>shape = [], elems = [elems t ! 0]\<rparr>"
    using assms(1) slice [of 0] by (simp add: squeeze_def getitem_def)
  show "2 < n \<Longrightarrow> label_of Tox21 t = Inr \<lparr>shape = [], elems = [elems t ! 2]\<rparr>"
    using assms(1) slice [of 2] by (simp add: squeeze_def getitem_def)
qed

text \<open>
  C4. Every sample that survives the missing-label filter has a label that is exactly 0.0
  or exactly 1.0. For lipo this holds of any raw data. The four other extractors hand on
  a raw entry as it is, so for them it holds of data that meets the loader's contract:
  the raw entries the extractor selects (the whole tensor for hiv and bbbp, the slice at
  index 0 for clintox and at index 2 for tox21) are 0.0, 1.0 or NaN.
\<close>

theorem surviving_labels_binary:
  assumes "load_dataset name h raw = (h', Inr data)"
    and "\<forall>r\<in>set raw. r < length h"
    and "\<forall>r\<in>set raw. \<forall>t. label_of name (y (h ! r)) = Inr t \<longrightarrow>
            name = Lipo \<or> set (elems t) \<subseteq> {Fin 0, Fin 1, NaN}"
  shows "\<forall>s\<in>set data. elems (y (h' ! s)) = [Fin 0] \<or> elems (y (h' ! s)) = [Fin 1]"
proof
  fix s assume s: "s \<in> set data"
  from assms(1) have run: "filter_map_series (transforms name) h raw = (h', Inr data)"
    by (auto simp: load_dataset_def split: prod.splits sum.splits)
  from filter_map_series_survivors [OF run assms(2)] s obtain r where
    na: "is_y_not_na (h' ! s) = Inr True" and r: "r \<in> set raw" and
    lab: "label_of name (y (h ! r)) = Inr (y (h' ! s))"
    by blast
  from is_y_not_na_True [OF na] obtain v where v: "elems (y (h' ! s)) = [v]" "v \<noteq> NaN" by blast
  have "set (elems (y (h' ! s))) \<subseteq> {Fin 0, Fin 1, NaN}"
  proof (cases "name = Lipo")
    case True
    with lab have "set (elems (y (h' ! s))) \<subseteq> {Fin 0, Fin 1}"
      by (simp only: label_of_Lipo_elems)
    then show ?thesis by blast
  next
    case False
    with assms(3) r lab show ?thesis by blast
  qed
  with v show "elems (y (h' ! s)) = [Fin 0] \<or> elems (y (h' ! s)) = [Fin 1]" by auto
qed

theorem surviving_labels_binary_witness:
  "load_dataset Tox21 example_heap [0..<101]
     = (example_heap
          @ map (\<lambda>r. (example_heap ! r)\<lparr>y := \<lparr>shape = [], elems = [if r < 100 then Fin 1 else Fin 0]\<rparr>\<rparr>)
              [0..<101],
        Inr [101..<202])
   \<and> 201 \<in> set [101..<202::nat]
   \<and> (elems (y (fst (load_dataset Tox21 example_heap [0..<101]) ! 201)) = [Fin 0]
      \<or> elems (y (fst (load_dataset Tox21 example_heap [0..<101]) ! 201)) = [Fin 1])"
proof -
  note run = load_example
  have refs: "\<forall>r\<in>set [0..<101]. r < length example_heap"
    by (simp add: example_heap_nth del: upt_rec_numeral)
  have "set (elems t) \<subseteq> {Fin 0, Fin 1, NaN}"
    if "r < 101" and "label_of Tox21 (y (example_heap ! r)) = Inr t" for r t
  proof (cases "r < 100")
    case True
    with that(2) show ?thesis by (auto simp: example_heap_nth label_of_tox21_sample)
  next
    case False
    with that(1) have "r = 100" by simp
    with that(2) show ?thesis by (auto simp: example_heap_nth label_of_tox21_sample)
  qed
  then have contract: "\<forall>r\<in>set [0..<101]. \<forall>t. label_of Tox21 (y (example_heap ! r)) = Inr t \<longrightarrow>
            Tox21 = Lipo \<or> set (elems t) \<subseteq> {Fin 0, Fin 1, NaN}"
    by (simp del: upt_rec_numeral)
  have last: "201 \<in> set [101..<202::nat]" by (simp del: upt_rec_numeral)
  from surviving_labels_binary [OF run refs contract] last
  have "elems (y (fst (load_dataset Tox21 example_heap [0..<101]) ! 201)) = [Fin 0]
      \<or> elems (y (fst (load_dataset Tox21 example_heap [0..<101]) ! 201)) = [Fin 1]"
    unfolding run fst_conv by blast
  with run last show ?thesis by blast
qed

section \<open>Class weights of the training partition\<close>

lemma unique_props:
  "set (unique ys) = set ys" "distinct (unique ys)" "sorted (unique ys)"
  "length (unique ys) = card (set ys)"
  by (simp_all add: unique_def)

lemma count_list_pos: "c \<in> set ys \<Longrightarrow> 0 < count_list ys c"
  using count_list_0_iff [of ys c] by auto

lemma class_weights_eq:
  assumes "2 \<le> card (set train_y)"
  shows "class_weights train_y =
     Inr (map (\<lambda>c. of_nat (length train_y)
                     / (of_nat (card (set train_y)) * of_nat (count_list train_y c)))
            (unique train_y))"
proof -
  from assms have "train_y \<noteq> []" by auto
  with assms show ?thesis
    by (simp add: class_weights_def compute_class_weight_def list_ex_iff unique_props)
qed

lemma unique_two:
  assumes "neg < pos" and "set ys = {neg, pos}"
  shows "unique ys = [neg, pos]"
proof -
  from assms(1) have "neg \<le> pos" "neg \<noteq> pos" by simp_all
  then show ?thesis by (simp add: unique_def assms(2))
qed

lemma length_two_classes:
  assumes "set ys = {neg, pos}" and "neg \<noteq> pos"
  shows "length ys = count_list ys neg + count_list ys pos"
proof -
  have "sum (count_list ys) {neg, pos} = length ys"
    using assms(1) by (intro sum_count_set) simp_all
  with assms(2) show ?thesis by simp
qed

text \<open>
  C6. On a training partition that contains both classes (two or more distinct labels),
  the class weights computed from the training labels are, class by class in ascending
  order of the labels, \<open>n_samples / (n_classes * n_samples_in_class_c)\<close>; every class of
  the partition has a positive count, so no division is by zero. On a training set with
  nine negative labels for every positive one the weights are 5/9 and 5: the positive
  class weighs 9 times the negative one (up to the rounding of the two floating-point
  divisions).
\<close>

theorem class_weights_balanced:
  "(2 \<le> card (set train_y) \<longrightarrow>
      class_weights train_y =
        Inr (map (\<lambda>c. of_nat (length train_y)
                        / (of_nat (card (set train_y)) * of_nat (count_list train_y c)))
               (unique train_y)))
   \<and> set (unique train_y) = set train_y \<and> distinct (unique train_y)
   \<and> (\<forall>c\<in>set train_y. 0 < count_list train_y c)
   \<and> (set train_y = {neg, pos} \<and> neg < pos
        \<and> count_list train_y neg = 9 * count_list train_y pos
      \<longrightarrow> class_weights train_y = Inr [5 / 9, 5])"
proof -
  have nine: "class_weights train_y = Inr [5 / 9, 5]"
    if s: "set train_y = {neg, pos}" and lt: "neg < pos"
      and c: "count_list train_y neg = 9 * count_list train_y pos"
  proof -
    have ne: "neg \<noteq> pos" using lt by simp
    have pos: "0 < count_list train_y pos" using s by (intro count_list_pos) simp
    have len: "length train_y = 10 * count_list train_y pos"
      using length_two_classes [OF s ne] c by simp
    have card: "card (set train_y) = 2" using s ne by simp
    then have two: "2 \<le> card (set train_y)" by simp
    show ?thesis
      using pos by (simp add: class_weights_eq [OF two] unique_two [OF lt s] len card c)
  qed
  have pos: "\<forall>c\<in>set train_y. 0 < count_list train_y c"
    by (simp add: count_list_pos)
  from class_weights_eq [of train_y] unique_props(1,2) [of train_y] pos nine
  show ?thesis by blast
qed

theorem class_weights_balanced_witness:
  "class_weights [0, 0, 0, 0, 0, 0, 0, 0, 0, 1 :: rat] = Inr [5 / 9, 5]
   \<and> set [0, 0, 0, 0, 0, 0, 0, 0, 0, 1 :: rat] = {0, 1}
   \<and> count_list [0, 0, 0, 0, 0, 0, 0, 0, 0, 1 :: rat] 0
        = 9 * count_list [0, 0, 0, 0, 0, 0, 0, 0, 0, 1 :: rat] 1
   \<and> 2 \<le> card (set [0, 0, 0, 0, 0, 0, 0, 0, 0, 1 :: rat])
   \<and> class_weights [0, 0, 0, 0, 0, 0, 0, 0, 0, 1 :: rat]
       = Inr (map (\<lambda>c. 10 / (2 * rat_of_nat (count_list [0, 0, 0, 0, 0, 0, 0, 0, 0, 1 :: rat] c)))
                [0, 1])"
proof -
  let ?ys = "[0, 0, 0, 0, 0, 0, 0, 0, 0, 1 :: rat]"
  have h: "set ?ys = {0, 1} \<and> (0::rat) < 1 \<and> count_list ?ys 0 = 9 * count_list ?ys 1"
    by simp
  have two: "2 \<le> card (set ?ys)" by simp
  from class_weights_balanced [of ?ys 0 1] h two
  have "class_weights ?ys = Inr [5 / 9, 5]" by blast
  with h two show ?thesis by simp
qed

section \<open>The metrics reporter\<close>

lemma stack_Inr: "stack arrays = Inr xs \<Longrightarrow> xs = arrays"
  by (simp add: stack_def split: if_splits)

text \<open>Counting pairs of two arrays is counting the positions of the rows.\<close>

lemma count_pairs_rows:
  assumes "length ts = n" and "length ps = n"
  shows "count_pairs P ts ps = count_rows n (\<lambda>i. P (ts ! i) (ps ! i))"
proof -
  have "zip ts ps = map (\<lambda>i. (ts ! i, ps ! i)) [0..<n]"
    using assms by (intro nth_equalityI) simp_all
  then show ?thesis
    by (simp add: count_pairs_def count_rows_def filter_map comp_def)
qed

lemma count_rows_cong:
  "n = m \<Longrightarrow> (\<And>i. i < m \<Longrightarrow> P i = Q i) \<Longrightarrow> count_rows n P = count_rows m Q"
  unfolding count_rows_def by (rule arg_cong [where f = length], rule filter_cong) simp_all

lemma length_filter_split:
  "length (filter (\<lambda>i. P i \<and> Q i) xs) + length (filter (\<lambda>i. P i \<and> \<not> Q i) xs)
     = length (filter P xs)"
  by (induction xs) auto

lemma count_rows_split:
  "count_rows n (\<lambda>i. P i \<and> Q i) + count_rows n (\<lambda>i. P i \<and> \<not> Q i) = count_rows n P"
  unfolding count_rows_def by (rule length_filter_split)

lemma count_rows_split':
  "count_rows n (\<lambda>i. Q i \<and> P i) + count_rows n (\<lambda>i. \<not> Q i \<and> P i) = count_rows n P"
  using count_rows_split [of n P Q] by (simp add: conj_commute)

text \<open>
  The four threshold metrics of a table in terms of its rows: which rows are positive,
  and which rows have a probability strictly greater than the threshold.
\<close>

lemma threshold_metrics:
  assumes "length ts = n" and "length ps = n"
  shows "accuracy_score ts (array_gt ps threshold)
           = of_nat (count_rows n (\<lambda>i. ts ! i = Fin (if ps ! i > threshold then 1 else 0)))
               / of_nat n"
    and "recall_score ts (array_gt ps threshold)
           = (if count_rows n (\<lambda>i. ts ! i = Fin 1) = 0 then 0
              else of_nat (count_rows n (\<lambda>i. ts ! i = Fin 1 \<and> ps ! i > threshold))
                     / of_nat (count_rows n (\<lambda>i. ts ! i = Fin 1)))"
    and "precision_score ts (array_gt ps threshold)
           = (if count_rows n (\<lambda>i. ps ! i > threshold) = 0 then 0
              else of_nat (count_rows n (\<lambda>i. ts ! i = Fin 1 \<and> ps ! i > threshold))
                     / of_nat (count_rows n (\<lambda>i. ps ! i > threshold)))"
    and "f1_score ts (array_gt ps threshold)
           = (if count_rows n (\<lambda>i. ts ! i = Fin 1) + count_rows n (\<lambda>i. ps ! i > threshold) = 0
              then 0
              else of_nat (2 * count_rows n (\<lambda>i. ts ! i = Fin 1 \<and> ps ! i > threshold))
                     / of_nat (count_rows n (\<lambda>i. ts ! i = Fin 1)
                                + count_rows n (\<lambda>i. ps ! i > threshold)))"
proof -
  let ?pos = "\<lambda>i. ps ! i > threshold"
  let ?pred = "array_gt ps threshold"
  have lp: "length ?pred = n" using assms(2) by (simp add: array_gt_def)
  have nth: "?pred ! i = ?pos i" if "i < n" for i
    using that assms(2) by (simp add: array_gt_def)
  have acc: "count_pairs (\<lambda>t p. t = Fin (if p then 1 else 0)) ts ?pred
      = count_rows n (\<lambda>i. ts ! i = Fin (if ?pos i then 1 else 0))"
    unfolding count_pairs_rows [OF assms(1) lp] by (rule count_rows_cong) (simp_all add: nth)
  have tp: "count_pairs (\<lambda>t p. t = Fin 1 \<and> p) ts ?pred
      = count_rows n (\<lambda>i. ts ! i = Fin 1 \<and> ?pos i)"
    unfolding count_pairs_rows [OF assms(1) lp] by (rule count_rows_cong) (simp_all add: nth)
  have fn: "count_pairs (\<lambda>t p. t = Fin 1 \<and> \<not> p) ts ?pred
      = count_rows n (\<lambda>i. ts ! i = Fin 1 \<and> \<not> ?pos i)"
    unfolding count_pairs_rows [OF assms(1) lp] by (rule count_rows_cong) (simp_all add: nth)
  have fp: "count_pairs (\<lambda>t p. t \<noteq> Fin 1 \<and> p) ts ?pred
      = count_rows n (\<lambda>i. \<not> ts ! i = Fin 1 \<and> ?pos i)"
    unfolding count_pairs_rows [OF assms(1) lp] by (rule count_rows_cong) (simp_all add: nth)
  have ap: "count_rows n (\<lambda>i. ts ! i = Fin 1 \<and> ?pos i)
      + count_rows n (\<lambda>i. ts ! i = Fin 1 \<and> \<not> ?pos i) = count_rows n (\<lambda>i. ts ! i = Fin 1)"
    by (rule count_rows_split)
  have pp: "count_rows n (\<lambda>i. ts ! i = Fin 1 \<and> ?pos i)
      + count_rows n (\<lambda>i. \<not> ts ! i = Fin 1 \<and> ?pos i) = count_rows n ?pos"
    by (rule count_rows_split')
  show "accuracy_score ts ?pred
           = of_nat (count_rows n (\<lambda>i. ts ! i = Fin (if ?pos i then 1 else 0))) / of_nat n"
    by (simp only: accuracy_score_def acc assms(1))
  show "recall_score ts ?pred
           = (if count_rows n (\<lambda>i. ts ! i = Fin 1) = 0 then 0
              else of_nat (count_rows n (\<lambda>i. ts ! i = Fin 1 \<and> ?pos i))
                     / of_nat (count_rows n (\<lambda>i. ts ! i = Fin 1)))"
    by (simp only: recall_score_def Let_def tp fn ap)
  show "precision_score ts ?pred
           = (if count_rows n ?pos = 0 then 0
              else of_nat (count_rows n (\<lambda>i. ts ! i = Fin 1 \<and> ?pos i))
                     / of_nat (count_rows n ?pos))"
    by (simp only: precision_score_def Let_def tp fp pp)
  have den: "2 * count_rows n (\<lambda>i. ts ! i = Fin 1 \<and> ?pos i)
      + count_rows n (\<lambda>i. \<not> ts ! i = Fin 1 \<and> ?pos i)
      + count_rows n (\<lambda>i. ts ! i = Fin 1 \<and> \<not> ?pos i)
      = count_rows n (\<lambda>i. ts ! i = Fin 1) + count_rows n ?pos"
    using ap pp by linarith
  show "f1_score ts ?pred
           = (if count_rows n (\<lambda>i. ts ! i = Fin 1) + count_rows n ?pos = 0 then 0
              else of_nat (2 * count_rows n (\<lambda>i. ts ! i = Fin 1 \<and> ?pos i))
                     / of_nat (count_rows n (\<lambda>i. ts ! i = Fin 1) + count_rows n ?pos))"
    by (simp only: f1_score_def Let_def tp fp fn den)
qed

lemma compute_metrics_Inr:
  assumes "fst (compute_metrics sk (model, df) threshold) = Inr tbl"
  shows "accuracy tbl = accuracy_score (map col_y df) (array_gt (map (prob model) df) threshold)"
    and "recall tbl = recall_score (map col_y df) (array_gt (map (prob model) df) threshold)"
    and "precision tbl = precision_score (map col_y df) (array_gt (map (prob model) df) threshold)"
    and "f1 tbl = f1_score (map col_y df) (array_gt (map (prob model) df) threshold)"
proof -
  have ps: "map snd (predict_proba model (map col_x df)) = map (prob model) df"
    by (simp add: predict_proba_def prob_def comp_def)
  from assms have
    "tbl = \<lparr>accuracy = accuracy_score (map col_y df) (array_gt (map (prob model) df) threshold),
            recall = recall_score (map col_y df) (array_gt (map (prob model) df) threshold),
            precision = precision_score (map col_y df) (array_gt (map (prob model) df) threshold),
            f1 = f1_score (map col_y df) (array_gt (map (prob model) df) threshold),
            roc_auc = roc_auc tbl, pr_auc = pr_auc tbl\<rparr>"
    by (auto simp: compute_metrics_def Let_def ps split: sum.splits if_splits prod.splits
             dest!: stack_Inr)
  then show "accuracy tbl = accuracy_score (map col_y df) (array_gt (map (prob model) df) threshold)"
    and "recall tbl = recall_score (map col_y df) (array_gt (map (prob model) df) threshold)"
    and "precision tbl = precision_score (map col_y df) (array_gt (map (prob model) df) threshold)"
    and "f1 tbl = f1_score (map col_y df) (array_gt (map (prob model) df) threshold)"
    by (metis metrics.select_convs(1), metis metrics.select_convs(2),
        metis metrics.select_convs(3), metis metrics.select_convs(4))
qed

lemma compute_metrics_run:
  assumes "stack (map col_x df) = Inr xs"
    and "precision_recall_curve sk (map col_y df) (map (prob model) df) = Inr (precisions, recalls)"
    and "roc_auc_score sk (map col_y df) (map (prob model) df) = Inr roc"
    and "auc sk recalls precisions = Inr pr"
  shows "fst (compute_metrics sk (model, df) threshold) =
     Inr \<lparr>accuracy = accuracy_score (map col_y df) (array_gt (map (prob model) df) threshold),
          recall = recall_score (map col_y df) (array_gt (map (prob model) df) threshold),
          precision = precision_score (map col_y df) (array_gt (map (prob model) df) threshold),
          f1 = f1_score (map col_y df) (array_gt (map (prob model) df) threshold),
          roc_auc = roc, pr_auc = pr\<rparr>"
proof -
  have ps: "map snd (predict_proba model xs) = map (prob model) df"
    using stack_Inr [OF assms(1)] by (simp add: predict_proba_def prob_def comp_def)
  show ?thesis
    by (simp add: compute_metrics_def Let_def assms ps)
qed

lemma toy_pred:
  "array_gt [0.9, 0.1, 0.8, 0.2, 0.7, 0.3, 0.6, 0.4, 0.55, 0.45] 0.5
     = [True, False, True, False, True, False, True, False, True, False]"
  by (simp add: array_gt_def)

lemma toy_scores:
  "accuracy_score [Fin 1, Fin 0, Fin 1, Fin 0, Fin 1, Fin 0, Fin 1, Fin 0, Fin 1, Fin 0]
     [True, False, True, False, True, False, True, False, True, False] = 1"
  "recall_score [Fin 1, Fin 0, Fin 1, Fin 0, Fin 1, Fin 0, Fin 1, Fin 0, Fin 1, Fin 0]
     [True, False, True, False, True, False, True, False, True, False] = 1"
  "precision_score [Fin 1, Fin 0, Fin 1, Fin 0, Fin 1, Fin 0, Fin 1, Fin 0, Fin 1, Fin 0]
     [True, False, True, False, True, False, True, False, True, False] = 1"
  "f1_score [Fin 1, Fin 0, Fin 1, Fin 0, Fin 1, Fin 0, Fin 1, Fin 0, Fin 1, Fin 0]
     [True, False, True, False, True, False, True, False, True, False] = 1"
  by (simp_all add: accuracy_score_def recall_score_def precision_score_def f1_score_def
        count_pairs_def)

text \<open>
  C7. The reporter classifies a row as positive if and only if its predicted probability
  is strictly greater than the threshold: whenever it returns a table, accuracy, recall,
  precision and f1 are the standard ratios of the counts of the rows \<open>i\<close> with
  \<open>prob model (df ! i) > threshold\<close>, so a row whose probability equals the threshold
  counts as predicted negative. In particular, on a table of ten rows with the true
  labels 1, 0, 1, 0, 1, 0, 1, 0, 1, 0 and the predicted probabilities 0.9, 0.1, 0.8, 0.2,
  0.7, 0.3, 0.6, 0.4, 0.55, 0.45, at the threshold 0.5, the reporter returns accuracy 1,
  recall 1, precision 1 and f1 1 (next to whatever the library's two ranking metrics are
  on these rows).
\<close>

theorem compute_metrics_threshold:
  "(\<forall>tbl. fst (compute_metrics sk (model, df) threshold) = Inr tbl \<longrightarrow>
      accuracy tbl
        = of_nat (count_rows (length df)
                    (\<lambda>i. col_y (df ! i) = Fin (if prob model (df ! i) > threshold then 1 else 0)))
            / of_nat (length df)
    \<and> recall tbl
        = (if count_rows (length df) (\<lambda>i. col_y (df ! i) = Fin 1) = 0 then 0
           else of_nat (count_rows (length df)
                          (\<lambda>i. col_y (df ! i) = Fin 1 \<and> prob model (df ! i) > threshold))
                  / of_nat (count_rows (length df) (\<lambda>i. col_y (df ! i) = Fin 1)))
    \<and> precision tbl
        = (if count_rows (length df) (\<lambda>i. prob model (df ! i) > threshold) = 0 then 0
           else of_nat (count_rows (length df)
                          (\<lambda>i. col_y (df ! i) = Fin 1 \<and> prob model (df ! i) > threshold))
                  / of_nat (count_rows (length df) (\<lambda>i. prob model (df ! i) > threshold)))
    \<and> f1 tbl
        = (if count_rows (length df) (\<lambda>i. col_y (df ! i) = Fin 1)
                + count_rows (length df) (\<lambda>i. prob model (df ! i) > threshold) = 0
           then 0
           else of_nat (2 * count_rows (length df)
                              (\<lambda>i. col_y (df ! i) = Fin 1 \<and> prob model (df ! i) > threshold))
                  / of_nat (count_rows (length df) (\<lambda>i. col_y (df ! i) = Fin 1)
                             + count_rows (length df) (\<lambda>i. prob model (df ! i) > threshold))))
   \<and> (map col_y df = [Fin 1, Fin 0, Fin 1, Fin 0, Fin 1, Fin 0, Fin 1, Fin 0, Fin 1, Fin 0]
        \<and> map (prob model) df = [0.9, 0.1, 0.8, 0.2, 0.7, 0.3, 0.6, 0.4, 0.55, 0.45]
        \<and> stack (map col_x df) = Inr xs
        \<and> precision_recall_curve sk (map col_y df) (map (prob model) df) = Inr (precisions, recalls)
        \<and> roc_auc_score sk (map col_y df) (map (prob model) df) = Inr roc
        \<and> auc sk recalls precisions = Inr pr
      \<longrightarrow> fst (compute_metrics sk (model, df) 0.5)
            = Inr \<lparr>accuracy = 1, recall = 1, precision = 1, f1 = 1, roc_auc = roc, pr_auc = pr\<rparr>)"
proof (intro conjI allI impI)
  fix tbl
  assume run: "fst (compute_metrics sk (model, df) threshold) = Inr tbl"
  note m = threshold_metrics [of "map col_y df" "length df" "map (prob model) df" threshold,
      OF length_map length_map]
  show "accuracy tbl
        = of_nat (count_rows (length df)
                    (\<lambda>i. col_y (df ! i) = Fin (if prob model (df ! i) > threshold then 1 else 0)))
            / of_nat (length df)"
    unfolding compute_metrics_Inr(1) [OF run] m(1) by (simp cong: count_rows_cong)
  show "recall tbl
        = (if count_rows (length df) (\<lambda>i. col_y (df ! i) = Fin 1) = 0 then 0
           else of_nat (count_rows (length df)
                          (\<lambda>i. col_y (df ! i) = Fin 1 \<and> prob model (df ! i) > threshold))
                  / of_nat (count_rows (length df) (\<lambda>i. col_y (df ! i) = Fin 1)))"
    unfolding compute_metrics_Inr(2) [OF run] m(2) by (simp cong: count_rows_cong)
  show "precision tbl
        = (if count_rows (length df) (\<lambda>i. prob model (df ! i) > threshold) = 0 then 0
           else of_nat (count_rows (length df)
                          (\<lambda>i. col_y (df ! i) = Fin 1 \<and> prob model (df ! i) > threshold))
                  / of_nat (count_rows (length df) (\<lambda>i. prob model (df ! i) > threshold)))"
    unfolding compute_metrics_Inr(3) [OF run] m(3) by (simp cong: count_rows_cong)
  show "f1 tbl
        = (if count_rows (length df) (\<lambda>i. col_y (df ! i) = Fin 1)
                + count_rows (length df) (\<lambda>i. prob model (df ! i) > threshold) = 0
           then 0
           else of_nat (2 * count_rows (length df)
                              (\<lambda>i. col_y (df ! i) = Fin 1 \<and> prob model (df ! i) > threshold))
                  / of_nat (count_rows (length df) (\<lambda>i. col_y (df ! i) = Fin 1)
                             + count_rows (length df) (\<lambda>i. prob model (df ! i) > threshold)))"
    unfolding compute_metrics_Inr(4) [OF run] m(4) by (simp cong: count_rows_cong)
next
  assume toy: "map col_y df = [Fin 1, Fin 0, Fin 1, Fin 0, Fin 1, Fin 0, Fin 1, Fin 0, Fin 1, Fin 0]
        \<and> map (prob model) df = [0.9, 0.1, 0.8, 0.2, 0.7, 0.3, 0.6, 0.4, 0.55, 0.45]
        \<and> stack (map col_x df) = Inr xs
        \<and> precision_recall_curve sk (map col_y df) (map (prob model) df) = Inr (precisions, recalls)
        \<and> roc_auc_score sk (map col_y df) (map (prob model) df) = Inr roc
        \<and> auc sk recalls precisions = Inr pr"
  then have ys: "map col_y df = [Fin 1, Fin 0, Fin 1, Fin 0, Fin 1, Fin 0, Fin 1, Fin 0, Fin 1, Fin 0]"
    and ps: "map (prob model) df = [0.9, 0.1, 0.8, 0.2, 0.7, 0.3, 0.6, 0.4, 0.55, 0.45]"
    and st: "stack (map col_x df) = Inr xs"
    and prc: "precision_recall_curve sk (map col_y df) (map (prob model) df) = Inr (precisions, recalls)"
    and roc: "roc_auc_score sk (map col_y df) (map (prob model) df) = Inr roc"
    and au: "auc sk recalls precisions = Inr pr"
    by blast+
  show "fst (compute_metrics sk (model, df) 0.5)
            = Inr \<lparr>accuracy = 1, recall = 1, precision = 1, f1 = 1, roc_auc = roc, pr_auc = pr\<rparr>"
    unfolding compute_metrics_run [OF st prc roc au] ys ps toy_pred toy_scores ..
qed

text \<open>
  On the table with ties, the two rows whose probability equals the threshold are not
  predicted positive: of the two positive rows one is found, and the one row that is
  predicted positive is positive.
\<close>

lemma tie_rows:
  "count_rows (length tie_df) (\<lambda>i. prob example_model (tie_df ! i) > 0.5) = 1"
  "count_rows (length tie_df) (\<lambda>i. col_y (tie_df ! i) = Fin 1) = 2"
  "count_rows (length tie_df)
     (\<lambda>i. col_y (tie_df ! i) = Fin 1 \<and> prob example_model (tie_df ! i) > 0.5) = 1"
  by (simp_all add: count_rows_def tie_df_def prob_def example_model_def upt_rec)

theorem compute_metrics_threshold_witness:
  "fst (compute_metrics example_sklearn (example_model, tie_df) 0.5)
     = Inr \<lparr>accuracy = 2 / 3, recall = 1 / 2, precision = 1, f1 = 2 / 3, roc_auc = 1, pr_auc = 1\<rparr>
   \<and> map (prob example_model) tie_df = [0.5, 0.5, 0.9]
   \<and> map col_y tie_df = [Fin 0, Fin 1, Fin 1]
   \<and> recall \<lparr>accuracy = 2 / 3, recall = 1 / 2, precision = 1, f1 = 2 / 3, roc_auc = 1, pr_auc = 1\<rparr>
       = (if count_rows (length tie_df) (\<lambda>i. col_y (tie_df ! i) = Fin 1) = 0 then 0
          else of_nat (count_rows (length tie_df)
                         (\<lambda>i. col_y (tie_df ! i) = Fin 1 \<and> prob example_model (tie_df ! i) > 0.5))
                 / of_nat (count_rows (length tie_df) (\<lambda>i. col_y (tie_df ! i) = Fin 1)))
   \<and> fst (compute_metrics example_sklearn (example_model, toy_df) 0.5)
     = Inr \<lparr>accuracy = 1, recall = 1, precision = 1, f1 = 1, roc_auc = 1, pr_auc = 1\<rparr>"
proof -
  have tie: "fst (compute_metrics example_sklearn (example_model, tie_df) 0.5)
     = Inr \<lparr>accuracy = 2 / 3, recall = 1 / 2, precision = 1, f1 = 2 / 3, roc_auc = 1, pr_auc = 1\<rparr>"
    by code_simp
  have tie_ps: "map (prob example_model) tie_df = [0.5, 0.5, 0.9]"
    by (simp add: prob_def example_model_def tie_df_def)
  have tie_ys: "map col_y tie_df = [Fin 0, Fin 1, Fin 1]"
    by (simp add: tie_df_def)
  note general = compute_metrics_threshold
    [where sk = example_sklearn and model = example_model and df = tie_df and threshold = "0.5",
     THEN conjunct1, rule_format, OF tie]
  note toy = compute_metrics_threshold
    [where sk = example_sklearn and model = example_model and df = toy_df
       and xs = "map col_x toy_df" and precisions = "[1, 1]" and recalls = "[1, 0]"
       and roc = 1 and pr = 1,
     THEN conjunct2, rule_format]
  have "fst (compute_metrics example_sklearn (example_model, toy_df) 0.5)
     = Inr \<lparr>accuracy = 1, recall = 1, precision = 1, f1 = 1, roc_auc = 1, pr_auc = 1\<rparr>"
    by (rule toy) (simp add: toy_df_def prob_def example_model_def stack_def example_sklearn_def)
  with tie tie_ps tie_ys general show ?thesis by blast
qed


section \<open>The fingerprint encoder\<close>

text \<open>
  What the encoder itself contributes: when the library parses the string, the vector is
  the library's key bits, one component per bit, each 0 or 1; when it does not, the
  encoder raises. How many key bits there are, and which strings parse, is the library's
  matter.
\<close>

lemma bit_bytes:
  "(of_nat (of_char CHR ''0'') :: 8 word) - 48 = 0"
  "(of_nat (of_char CHR ''1'') :: 8 word) - 48 = 1"
  by simp_all

lemma smiles2fingerprint_bits:
  assumes "smiles2fingerprint rd s = Inr v"
  shows "\<exists>mol. MolFromSmiles rd s = Some mol
           \<and> v = map (\<lambda>b. if b then 1 else 0) (GenMACCSKeys rd mol)
           \<and> length v = length (GenMACCSKeys rd mol)
           \<and> set v \<subseteq> {0, 1}"
proof -
  from assms obtain mol where mol: "MolFromSmiles rd s = Some mol"
    and v: "v = map (\<lambda>c. (of_nat (of_char c) :: 8 word) - 48) (ToBitString (GenMACCSKeys rd mol))"
    by (auto simp: smiles2fingerprint_def split: option.splits)
  have "v = map (\<lambda>b. if b then 1 else 0) (GenMACCSKeys rd mol)"
    unfolding v ToBitString_def by (simp add: bit_bytes cong: if_cong)
  with mol show ?thesis by auto
qed

lemma smiles2fingerprint_unparsed:
  "MolFromSmiles rd s = None \<Longrightarrow> smiles2fingerprint rd s = Inl ArgumentError"
  by (simp add: smiles2fingerprint_def)

end
